theory Spec2Isabelle
  imports Main "HOL-Library.Word" "HOL-Library.AList"
begin

unbundle bit_operations_syntax

section \<open>Go values used by propagation.go\<close>

type_synonym byte = "8 word"
type_synonym int32 = "32 word"
type_synonym int64 = "64 word"

text \<open>
  A Go \<^verbatim>\<open>string\<close> is a sequence of bytes, as a HOL \<^typ>\<open>string\<close> is a sequence of
  8-bit characters. The conversions \<^verbatim>\<open>[]byte(s)\<close> and \<^verbatim>\<open>string(b)\<close> copy the bytes.
\<close>

definition byte_of_char :: "char \<Rightarrow> byte" where
  "byte_of_char c = word_of_nat (of_char c)"

definition char_of_byte :: "byte \<Rightarrow> char" where
  "char_of_byte b = char_of (unat b)"

definition bytes_of_string :: "string \<Rightarrow> byte list" where
  "bytes_of_string s = map byte_of_char s"

definition string_of_bytes :: "byte list \<Rightarrow> string" where
  "string_of_bytes b = map char_of_byte b"

text \<open>
  A \<^verbatim>\<open>map[string]string\<close> is a list of entries with pairwise different keys; the order of
  the list is the order in which one \<^verbatim>\<open>range\<close> loop visits the entries (Go leaves it
  unspecified, so a property of the code has to hold for every order). The assignment
  \<^verbatim>\<open>m[k] = v\<close> is \<^const>\<open>AList.update\<close>.

  Maps are reference values: a variable of map type holds \<^verbatim>\<open>nil\<close> or the address of a
  map in the store, and two variables may hold the same address.
\<close>

type_synonym gomap = "(string \<times> string) list"

datatype mapref = NilMap | MapRef nat

type_synonym store = "gomap list"

definition deref :: "store \<Rightarrow> mapref \<Rightarrow> gomap" where
  "deref h r = (case r of NilMap \<Rightarrow> [] | MapRef a \<Rightarrow> if a < length h then h ! a else [])"

definition allocated :: "store \<Rightarrow> mapref \<Rightarrow> bool" where
  "allocated h r = (case r of NilMap \<Rightarrow> False | MapRef a \<Rightarrow> a < length h)"

text \<open>\<^verbatim>\<open>make(map[string]string, n)\<close> followed by the insertions that fill it with \<open>m\<close>.\<close>

definition alloc :: "store \<Rightarrow> gomap \<Rightarrow> store \<times> mapref" where
  "alloc h m = (h @ [m], MapRef (length h))"

record StandardContext =
  TraceID :: int64
  SpanID :: int64
  ParentSpanID :: int64
  Sampled :: bool
  traceAttrs :: mapref

record spanImpl =
  raw_StandardContext :: StandardContext
  raw_Operation :: string
  raw_Start :: nat
  raw_Tags :: "(string \<times> string) list"

text \<open>
  Modelled from the spec: \<^verbatim>\<open>startSpanInternal\<close> is not in propagation.go. The
  spec describes it as \<^verbatim>\<open>construct_child(context, operationName, startTime, extraTags)\<close>,
  which yields the child span of the reconstructed context.
\<close>

definition startSpanInternal ::
  "StandardContext \<Rightarrow> string \<Rightarrow> nat \<Rightarrow> (string \<times> string) list \<Rightarrow> spanImpl" where
  "startSpanInternal sc operationName startTime tags =
     \<lparr>raw_StandardContext = sc, raw_Operation = operationName,
      raw_Start = startTime, raw_Tags = tags\<rparr>"

text \<open>
  What a call reads from outside propagation.go: the identifier that \<^verbatim>\<open>randomID()\<close>
  returns, the clock, the Unicode table behind \<^verbatim>\<open>strings.ToLower\<close> for strings that
  are not ASCII, and what the Go runtime in use does on \<^verbatim>\<open>make(map[string]string, n)\<close>
  with a negative \<open>n\<close>: the language leaves the treatment of the size hint to the
  implementation; early runtimes panic, later ones ignore the hint.
\<close>

record collaborators =
  randomID :: int64
  time_Now :: nat
  unicode_ToLower :: "string \<Rightarrow> string"
  makemap_panics :: bool

subsection \<open>Carriers\<close>

record SplitTextCarrier =
  text_TracerState :: gomap
  text_TraceAttributes :: mapref

record SplitBinaryCarrier =
  bin_TracerState :: "byte list"
  bin_TraceAttributes :: "byte list"

type_synonym Header = "string \<rightharpoonup> string list"

text \<open>
  The dynamic type of the \<^verbatim>\<open>interface{}\<close> carrier. The two split carriers are passed as
  pointers (\<open>None\<close> is the nil pointer), \<^verbatim>\<open>http.Header\<close> is a map (\<open>None\<close> is the nil
  map); \<open>OtherCarrier\<close> stands for a value of any other type.
\<close>

datatype carrier =
    TextCarrier "SplitTextCarrier option"
  | BinaryCarrier "SplitBinaryCarrier option"
  | HTTPHeader "Header option"
  | OtherCarrier

subsection \<open>Results\<close>

datatype error = InvalidCarrier | TraceCorrupted | TraceNotFound | Errorf string

datatype panic =
    InterfaceConversion
  | MakesliceLenOutOfRange
  | MakemapSizeOutOfRange
  | NilPointerDereference
  | AssignmentToNilMap

text \<open>A call returns a value, returns an error, or panics.\<close>

datatype 'a result = Return 'a | Error error | Panic panic

section \<open>encoding/binary, big endian\<close>

definition PutUint32 :: "int32 \<Rightarrow> byte list" where
  "PutUint32 v = [ucast (drop_bit 24 v), ucast (drop_bit 16 v), ucast (drop_bit 8 v), ucast v]"

definition Uint32 :: "byte list \<Rightarrow> int32" where
  "Uint32 b = ucast (b ! 3) OR push_bit 8 (ucast (b ! 2)) OR push_bit 16 (ucast (b ! 1))
     OR push_bit 24 (ucast (b ! 0))"

definition PutUint64 :: "int64 \<Rightarrow> byte list" where
  "PutUint64 v =
     [ucast (drop_bit 56 v), ucast (drop_bit 48 v), ucast (drop_bit 40 v), ucast (drop_bit 32 v),
      ucast (drop_bit 24 v), ucast (drop_bit 16 v), ucast (drop_bit 8 v), ucast v]"

definition Uint64 :: "byte list \<Rightarrow> int64" where
  "Uint64 b = ucast (b ! 7) OR push_bit 8 (ucast (b ! 6)) OR push_bit 16 (ucast (b ! 5))
     OR push_bit 24 (ucast (b ! 4)) OR push_bit 32 (ucast (b ! 3)) OR push_bit 40 (ucast (b ! 2))
     OR push_bit 48 (ucast (b ! 1)) OR push_bit 56 (ucast (b ! 0))"

text \<open>
  \<^verbatim>\<open>binary.Read\<close> from a \<^verbatim>\<open>bytes.Reader\<close> whose unread part is \<open>r\<close>: it fills a buffer of
  \<open>n\<close> bytes with \<^verbatim>\<open>io.ReadFull\<close>, which fails (\<open>None\<close>) when fewer than \<open>n\<close> bytes are
  left and reads nothing, successfully, when \<open>n = 0\<close>.
\<close>

definition readFull :: "nat \<Rightarrow> byte list \<Rightarrow> (byte list \<times> byte list) option" where
  "readFull n r = (if length r < n then None else Some (take n r, drop n r))"

definition read_int64 :: "byte list \<Rightarrow> (int64 \<times> byte list) option" where
  "read_int64 r = (case readFull 8 r of None \<Rightarrow> None | Some (b, r') \<Rightarrow> Some (Uint64 b, r'))"

definition read_int32 :: "byte list \<Rightarrow> (int32 \<times> byte list) option" where
  "read_int32 r = (case readFull 4 r of None \<Rightarrow> None | Some (b, r') \<Rightarrow> Some (Uint32 b, r'))"

definition read_byte :: "byte list \<Rightarrow> (byte \<times> byte list) option" where
  "read_byte r = (case readFull 1 r of None \<Rightarrow> None | Some (b, r') \<Rightarrow> Some (b ! 0, r'))"

section \<open>The split binary propagator\<close>

text \<open>Conversion \<^verbatim>\<open>int32(len(x))\<close>: the length, truncated to 32 bits.\<close>

definition int32_len :: "'a list \<Rightarrow> int32" where
  "int32_len xs = word_of_nat (length xs)"

text \<open>
  Lines 148 to 153: one attribute on the wire, the key and then the value, each as its
  length in four bytes followed by its bytes.
\<close>

definition writeLenBytes :: "byte list \<Rightarrow> byte list" where
  "writeLenBytes bs = PutUint32 (int32_len bs) @ bs"

definition writeAttr :: "string \<times> string \<Rightarrow> byte list" where
  "writeAttr kv =
     (let keyBytes = bytes_of_string (fst kv); valBytes = bytes_of_string (snd kv)
      in writeLenBytes keyBytes @ writeLenBytes valBytes)"

definition writeAttrs :: "gomap \<Rightarrow> byte list" where
  "writeAttrs attrs = PutUint32 (int32_len attrs) @ concat (map writeAttr attrs)"

definition writeState :: "StandardContext \<Rightarrow> byte list" where
  "writeState sc =
     (let sampledByte = (if Sampled sc then 1 else 0)
      in PutUint64 (TraceID sc) @ PutUint64 (SpanID sc) @ [sampledByte])"

text \<open>
  \<^verbatim>\<open>splitBinaryPropagator.InjectSpan\<close> (lines 109 to 159). The span is one that this
  tracer made, so the assertion of line 113 holds. The writes go to a \<^verbatim>\<open>bytes.Buffer\<close>
  and cannot fail; the two fields of the carrier are assigned at the end (lines 156 and
  157), through the pointer.
\<close>

definition splitBinaryPropagator_InjectSpan :: "store \<Rightarrow> spanImpl \<Rightarrow> carrier \<Rightarrow> carrier result" where
  "splitBinaryPropagator_InjectSpan h sp c =
     (let sc = raw_StandardContext sp in
      case c of
        BinaryCarrier p \<Rightarrow>
          (let contextBuf = writeState sc;
               attrsBuf = writeAttrs (deref h (traceAttrs sc))
           in case p of
                None \<Rightarrow> Panic NilPointerDereference
              | Some splitBinaryCarrier \<Rightarrow>
                  Return (BinaryCarrier (Some (splitBinaryCarrier
                    \<lparr>bin_TracerState := contextBuf, bin_TraceAttributes := attrsBuf\<rparr>))))
      | _ \<Rightarrow> Error InvalidCarrier)"

text \<open>
  Lines 198 to 207 (and again 209 to 218): a 4-byte length, \<^verbatim>\<open>make([]byte, len)\<close>, which
  panics when the length is negative, and the read of that many bytes.
\<close>

definition readLenBytes :: "byte list \<Rightarrow> (byte list \<times> byte list) result" where
  "readLenBytes r =
     (case read_int32 r of
        None \<Rightarrow> Error TraceCorrupted
      | Some (len, r1) \<Rightarrow>
          if sint len < 0 then Panic MakesliceLenOutOfRange
          else (case readFull (nat (sint len)) r1 of
                  None \<Rightarrow> Error TraceCorrupted
                | Some (bs, r2) \<Rightarrow> Return (bs, r2)))"

text \<open>The loop of lines 197 to 221, with the reader and the map it has built so far.\<close>

function readAttrs :: "int \<Rightarrow> int \<Rightarrow> byte list \<Rightarrow> gomap \<Rightarrow> gomap result" where
  "readAttrs i iNumAttrs r attrMap =
     (if i < iNumAttrs then
        (case readLenBytes r of
           Error e \<Rightarrow> Error e
         | Panic p \<Rightarrow> Panic p
         | Return (keyBytes, r1) \<Rightarrow>
             (case readLenBytes r1 of
                Error e \<Rightarrow> Error e
              | Panic p \<Rightarrow> Panic p
              | Return (valBytes, r2) \<Rightarrow>
                  readAttrs (i + 1) iNumAttrs r2
                    (AList.update (string_of_bytes keyBytes) (string_of_bytes valBytes) attrMap)))
      else Return attrMap)"
  by pat_completeness auto
termination
  by (relation "measure (\<lambda>(i, iNumAttrs, r, attrMap). nat (iNumAttrs - i))") auto

text \<open>
  \<^verbatim>\<open>splitBinaryPropagator.JoinTrace\<close> (lines 161 to 235). Line 196 makes the map with
  the entry count as its size hint; the map becomes part of the store when the span is
  returned.
\<close>

definition splitBinaryPropagator_JoinTrace ::
  "collaborators \<Rightarrow> store \<Rightarrow> string \<Rightarrow> carrier \<Rightarrow> (spanImpl \<times> store) result" where
  "splitBinaryPropagator_JoinTrace env h operationName c =
     (case c of
        BinaryCarrier p \<Rightarrow>
          (case p of
             None \<Rightarrow> Panic NilPointerDereference
           | Some splitBinaryCarrier \<Rightarrow>
          (case read_int64 (bin_TracerState splitBinaryCarrier) of
             None \<Rightarrow> Error TraceCorrupted
           | Some (traceID, r1) \<Rightarrow>
          (case read_int64 r1 of
             None \<Rightarrow> Error TraceCorrupted
           | Some (propagatedSpanID, r2) \<Rightarrow>
          (case read_byte r2 of
             None \<Rightarrow> Error TraceCorrupted
           | Some (sampledByte, r3) \<Rightarrow>
          (case read_int32 (bin_TraceAttributes splitBinaryCarrier) of
             None \<Rightarrow> Error TraceCorrupted
           | Some (numAttrs, attrsReader) \<Rightarrow>
          if sint numAttrs < 0 \<and> makemap_panics env then Panic MakemapSizeOutOfRange else
          (case readAttrs 0 (sint numAttrs) attrsReader [] of
             Error e \<Rightarrow> Error e
           | Panic q \<Rightarrow> Panic q
           | Return attrMap \<Rightarrow>
               (let (h', ref) = alloc h attrMap
                in Return (startSpanInternal
                     \<lparr>TraceID = traceID, SpanID = randomID env,
                      ParentSpanID = propagatedSpanID, Sampled = (sampledByte \<noteq> 0),
                      traceAttrs = ref\<rparr>
                     operationName (time_Now env) [], h'))))))))
      | _ \<Rightarrow> Error InvalidCarrier)"

section \<open>strconv, strings and fmt\<close>

definition ord :: "char \<Rightarrow> nat" where
  "ord c = of_char c"

text \<open>The table \<^verbatim>\<open>digits\<close> of strconv, and the digits of \<open>u\<close> in base 10.\<close>

definition digit_char :: "nat \<Rightarrow> char" where
  "digit_char d = ''0123456789'' ! d"

fun formatBits :: "nat \<Rightarrow> string" where
  "formatBits u = (if u < 10 then [digit_char u] else formatBits (u div 10) @ [digit_char (u mod 10)])"

declare formatBits.simps [simp del]

text \<open>\<^verbatim>\<open>strconv.FormatInt(i, 10)\<close>.\<close>

definition FormatInt :: "int64 \<Rightarrow> string" where
  "FormatInt i = (if sint i < 0 then CHR ''-'' # formatBits (nat (- sint i)) else formatBits (nat (sint i)))"

definition FormatBool :: "bool \<Rightarrow> string" where
  "FormatBool b = (if b then ''true'' else ''false'')"

text \<open>The verb \<^verbatim>\<open>%v\<close> of \<^verbatim>\<open>fmt\<close> applied to an \<^verbatim>\<open>int\<close>.\<close>

definition fmt_int :: "int \<Rightarrow> string" where
  "fmt_int i = (if i < 0 then CHR ''-'' # formatBits (nat (- i)) else formatBits (nat i))"

text \<open>
  \<^verbatim>\<open>strconv.ParseUint(s, 10, 64)\<close> without its range check (the value is not bounded
  here; \<open>None\<close> is the syntax error), and \<^verbatim>\<open>strconv.ParseInt(s, 10, 64)\<close>, which strips
  one sign and reports every value outside of the 64-bit range as an error.
\<close>

definition is_digit :: "char \<Rightarrow> bool" where
  "is_digit c = (c \<in> set ''0123456789'')"

definition ParseUint :: "string \<Rightarrow> nat option" where
  "ParseUint s =
     (if s = [] \<or> \<not> list_all is_digit s then None
      else Some (foldl (\<lambda>n c. n * 10 + (ord c - 48)) 0 s))"

definition ParseInt :: "string \<Rightarrow> int64 option" where
  "ParseInt s =
     (if s = [] then None
      else let neg = (hd s = CHR ''-'');
               s1 = (if hd s = CHR ''+'' \<or> hd s = CHR ''-'' then tl s else s)
           in case ParseUint s1 of
                None \<Rightarrow> None
              | Some un \<Rightarrow>
                  if \<not> neg \<and> un \<ge> 2 ^ 63 then None
                  else if neg \<and> un > 2 ^ 63 then None
                  else Some (if neg then - word_of_nat un else word_of_nat un))"

definition ParseBool :: "string \<Rightarrow> bool option" where
  "ParseBool s =
     (if s \<in> set [''1'', ''t'', ''T'', ''TRUE'', ''true'', ''True''] then Some True
      else if s \<in> set [''0'', ''f'', ''F'', ''FALSE'', ''false'', ''False''] then Some False
      else None)"

text \<open>
  \<^verbatim>\<open>strings.ToLower\<close>: a string of ASCII bytes has its letters A to Z replaced; any other
  string is mapped rune by rune through the Unicode tables, here the function \<open>ul\<close>.
\<close>

definition lower_byte :: "char \<Rightarrow> char" where
  "lower_byte c =
     (case map_of (zip ''ABCDEFGHIJKLMNOPQRSTUVWXYZ'' ''abcdefghijklmnopqrstuvwxyz'') c of
        Some l \<Rightarrow> l
      | None \<Rightarrow> c)"

definition upper_byte :: "char \<Rightarrow> char" where
  "upper_byte c =
     (case map_of (zip ''abcdefghijklmnopqrstuvwxyz'' ''ABCDEFGHIJKLMNOPQRSTUVWXYZ'') c of
        Some u \<Rightarrow> u
      | None \<Rightarrow> c)"

definition ToLower :: "(string \<Rightarrow> string) \<Rightarrow> string \<Rightarrow> string" where
  "ToLower ul s = (if list_all (\<lambda>c. ord c < 128) s then map lower_byte s else ul s)"

section \<open>net/textproto and net/http: header keys\<close>

definition validHeaderFieldByte :: "char \<Rightarrow> bool" where
  "validHeaderFieldByte c =
     (c \<in> set ''ABCDEFGHIJKLMNOPQRSTUVWXYZabcdefghijklmnopqrstuvwxyz0123456789!#$%&*+-.^_`|~''
      \<or> ord c = 39)"

fun canonicalMIMEHeaderKey :: "bool \<Rightarrow> string \<Rightarrow> string" where
  "canonicalMIMEHeaderKey upper [] = []"
| "canonicalMIMEHeaderKey upper (c # cs) =
     (let c' = (if upper then upper_byte c else lower_byte c)
      in c' # canonicalMIMEHeaderKey (c' = CHR ''-'') cs)"

definition CanonicalHeaderKey :: "string \<Rightarrow> string" where
  "CanonicalHeaderKey s =
     (if list_all validHeaderFieldByte s then canonicalMIMEHeaderKey True s else s)"

text \<open>\<^verbatim>\<open>Header.Add\<close> appends under the canonical key; on a nil map the assignment panics.\<close>

definition Header_Add :: "Header option \<Rightarrow> string \<Rightarrow> string \<Rightarrow> Header result" where
  "Header_Add header key val =
     (case header of
        None \<Rightarrow> Panic AssignmentToNilMap
      | Some m \<Rightarrow>
          (let k = CanonicalHeaderKey key
           in Return (m(k \<mapsto> (case m k of None \<Rightarrow> [] | Some vs \<Rightarrow> vs) @ [val]))))"

text \<open>The index expression \<^verbatim>\<open>v, found := header[key]\<close>.\<close>

definition Header_index :: "Header option \<Rightarrow> string \<Rightarrow> string list option" where
  "Header_index header key = (case header of None \<Rightarrow> None | Some m \<Rightarrow> m key)"

section \<open>encoding/base64: StdEncoding\<close>

definition encodeStd :: string where
  "encodeStd = ''ABCDEFGHIJKLMNOPQRSTUVWXYZabcdefghijklmnopqrstuvwxyz0123456789+/''"

definition encode6 :: "nat \<Rightarrow> char" where
  "encode6 v = encodeStd ! (v mod 64)"

definition decodeMap :: "char \<Rightarrow> nat option" where
  "decodeMap c = map_of (zip encodeStd [0..<64]) c"

fun EncodeToString :: "byte list \<Rightarrow> string" where
  "EncodeToString (a # b # c # src) =
     (let val = unat a * 65536 + unat b * 256 + unat c
      in encode6 (val div 262144) # encode6 (val div 4096) # encode6 (val div 64) # encode6 val
           # EncodeToString src)"
| "EncodeToString [a, b] =
     (let val = unat a * 65536 + unat b * 256
      in [encode6 (val div 262144), encode6 (val div 4096), encode6 (val div 64), CHR ''=''])"
| "EncodeToString [a] =
     (let val = unat a * 65536
      in [encode6 (val div 262144), encode6 (val div 4096), CHR ''='', CHR ''=''])"
| "EncodeToString [] = []"

text \<open>
  Decoding skips carriage returns and line feeds wherever they stand, reads quanta of four
  characters, accepts padding only in the last quantum (\<^verbatim>\<open>xx==\<close> or \<^verbatim>\<open>xxx=\<close>, with
  nothing after it) and does not check the unused low bits of a padded quantum.
\<close>

definition quantum :: "nat \<Rightarrow> nat \<Rightarrow> nat \<Rightarrow> nat \<Rightarrow> nat" where
  "quantum s0 s1 s2 s3 = s0 * 262144 + s1 * 4096 + s2 * 64 + s3"

fun decodeQuanta :: "string \<Rightarrow> byte list option" where
  "decodeQuanta [] = Some []"
| "decodeQuanta (c0 # c1 # c2 # c3 # src) =
     (case decodeMap c0 of None \<Rightarrow> None | Some s0 \<Rightarrow>
      case decodeMap c1 of None \<Rightarrow> None | Some s1 \<Rightarrow>
        if c2 = CHR ''='' then
          (if c3 = CHR ''='' \<and> src = [] then Some [word_of_nat (quantum s0 s1 0 0 div 65536)]
           else None)
        else
          (case decodeMap c2 of None \<Rightarrow> None | Some s2 \<Rightarrow>
             if c3 = CHR ''='' then
               (if src = []
                then Some [word_of_nat (quantum s0 s1 s2 0 div 65536),
                           word_of_nat (quantum s0 s1 s2 0 div 256)]
                else None)
             else
               (case decodeMap c3 of None \<Rightarrow> None | Some s3 \<Rightarrow>
                  (case decodeQuanta src of None \<Rightarrow> None
                   | Some dst \<Rightarrow>
                       Some (word_of_nat (quantum s0 s1 s2 s3 div 65536)
                             # word_of_nat (quantum s0 s1 s2 s3 div 256)
                             # word_of_nat (quantum s0 s1 s2 s3) # dst)))))"
| "decodeQuanta _ = None"

definition DecodeString :: "string \<Rightarrow> byte list option" where
  "DecodeString s = decodeQuanta (filter (\<lambda>c. c \<noteq> CHR 0x0A \<and> c \<noteq> CHR 0x0D) s)"

section \<open>The split text propagator\<close>

definition fieldNameTraceID :: string where "fieldNameTraceID = ''traceid''"
definition fieldNameSpanID :: string where "fieldNameSpanID = ''spanid''"
definition fieldNameSampled :: string where "fieldNameSampled = ''sampled''"

text \<open>The copy loop of lines 47 to 50, into a map that starts empty.\<close>

definition copyAttrs :: "gomap \<Rightarrow> gomap" where
  "copyAttrs attrs = fold (\<lambda>kv. AList.update (fst kv) (snd kv)) attrs []"

text \<open>
  \<^verbatim>\<open>splitTextPropagator.InjectSpan\<close> (lines 32 to 53), on a span that this tracer made
  (line 36). The map made on line 47 is new in the store; the carrier's fields are
  assigned through the pointer.
\<close>

definition splitTextPropagator_InjectSpan ::
  "store \<Rightarrow> spanImpl \<Rightarrow> carrier \<Rightarrow> (carrier \<times> store) result" where
  "splitTextPropagator_InjectSpan h sp c =
     (let sc = raw_StandardContext sp in
      case c of
        TextCarrier p \<Rightarrow>
          (case p of
             None \<Rightarrow> Panic NilPointerDereference
           | Some splitTextCarrier \<Rightarrow>
               (let tracerState =
                      [(fieldNameTraceID, FormatInt (TraceID sc)),
                       (fieldNameSpanID, FormatInt (SpanID sc)),
                       (fieldNameSampled, FormatBool (Sampled sc))];
                    (h', ref) = alloc h (copyAttrs (deref h (traceAttrs sc)))
                in Return (TextCarrier (Some (splitTextCarrier
                     \<lparr>text_TracerState := tracerState, text_TraceAttributes := ref\<rparr>)), h')))
      | _ \<Rightarrow> Error InvalidCarrier)"

text \<open>The local variables of \<^verbatim>\<open>JoinTrace\<close> that the loop of lines 67 to 90 assigns.\<close>

record locals =
  requiredFieldCount :: int
  traceID :: int64
  propagatedSpanID :: int64
  sampled :: bool

definition locals0 :: locals where
  "locals0 = \<lparr>requiredFieldCount = 0, traceID = 0, propagatedSpanID = 0, sampled = False\<rparr>"

fun rangeTracerState :: "(string \<Rightarrow> string) \<Rightarrow> gomap \<Rightarrow> locals \<Rightarrow> locals result" where
  "rangeTracerState ul [] l = Return l"
| "rangeTracerState ul ((k, v) # rest) l =
     (let lk = ToLower ul k in
      if lk = fieldNameTraceID then
        (case ParseInt v of
           None \<Rightarrow> Error TraceCorrupted
         | Some t \<Rightarrow> rangeTracerState ul rest
             (l\<lparr>traceID := t, requiredFieldCount := requiredFieldCount l + 1\<rparr>))
      else if lk = fieldNameSpanID then
        (case ParseInt v of
           None \<Rightarrow> Error TraceCorrupted
         | Some s \<Rightarrow> rangeTracerState ul rest
             (l\<lparr>propagatedSpanID := s, requiredFieldCount := requiredFieldCount l + 1\<rparr>))
      else if lk = fieldNameSampled then
        (case ParseBool v of
           None \<Rightarrow> Error TraceCorrupted
         | Some b \<Rightarrow> rangeTracerState ul rest
             (l\<lparr>sampled := b, requiredFieldCount := requiredFieldCount l + 1\<rparr>))
      else Error (Errorf (''Unknown TracerState field: '' @ k)))"

text \<open>
  \<^verbatim>\<open>splitTextPropagator.JoinTrace\<close> (lines 55 to 107). Line 101 stores the carrier's map
  reference itself in the new context; the store is returned as it was.
\<close>

definition splitTextPropagator_JoinTrace ::
  "collaborators \<Rightarrow> store \<Rightarrow> string \<Rightarrow> carrier \<Rightarrow> (spanImpl \<times> store) result" where
  "splitTextPropagator_JoinTrace env h operationName c =
     (case c of
        TextCarrier p \<Rightarrow>
          (case p of
             None \<Rightarrow> Panic NilPointerDereference
           | Some splitTextCarrier \<Rightarrow>
               (case rangeTracerState (unicode_ToLower env) (text_TracerState splitTextCarrier) locals0 of
                  Error e \<Rightarrow> Error e
                | Panic q \<Rightarrow> Panic q
                | Return l \<Rightarrow>
                    if requiredFieldCount l < 3
                    then Error (Errorf (''Only found '' @ fmt_int (requiredFieldCount l)
                                        @ '' of 3 required fields''))
                    else Return (startSpanInternal
                           \<lparr>TraceID = traceID l, SpanID = randomID env,
                            ParentSpanID = propagatedSpanID l, Sampled = sampled l,
                            traceAttrs = text_TraceAttributes splitTextCarrier\<rparr>
                           operationName (time_Now env) [], h)))
      | _ \<Rightarrow> Error InvalidCarrier)"

section \<open>The HTTP header propagator\<close>

definition tracerStateHeaderName :: string where "tracerStateHeaderName = ''Tracer-State''"
definition traceAttrsHeaderName :: string where "traceAttrsHeaderName = ''Trace-Attributes''"

definition NewSplitBinaryCarrier :: SplitBinaryCarrier where
  "NewSplitBinaryCarrier = \<lparr>bin_TracerState = [], bin_TraceAttributes = []\<rparr>"

text \<open>What a pointer to a split binary carrier points to after a call that returned \<open>c\<close>.\<close>

definition pointee :: "SplitBinaryCarrier \<Rightarrow> carrier \<Rightarrow> SplitBinaryCarrier" where
  "pointee before c = (case c of BinaryCarrier (Some after) \<Rightarrow> after | _ \<Rightarrow> before)"

text \<open>
  \<^verbatim>\<open>goHTTPPropagator.InjectSpan\<close> (lines 242 to 260). The type assertion of line 253 has
  one result only, so it panics on a carrier that is not an \<^verbatim>\<open>http.Header\<close>.
\<close>

definition goHTTPPropagator_InjectSpan :: "store \<Rightarrow> spanImpl \<Rightarrow> carrier \<Rightarrow> carrier result" where
  "goHTTPPropagator_InjectSpan h sp c =
     (case splitBinaryPropagator_InjectSpan h sp (BinaryCarrier (Some NewSplitBinaryCarrier)) of
        Error e \<Rightarrow> Error e
      | Panic q \<Rightarrow> Panic q
      | Return c' \<Rightarrow>
          (let splitBinaryCarrier = pointee NewSplitBinaryCarrier c' in
           case c of
             HTTPHeader header \<Rightarrow>
               (case Header_Add header tracerStateHeaderName
                       (EncodeToString (bin_TracerState splitBinaryCarrier)) of
                  Error e \<Rightarrow> Error e
                | Panic q \<Rightarrow> Panic q
                | Return header1 \<Rightarrow>
                    (case Header_Add (Some header1) traceAttrsHeaderName
                            (EncodeToString (bin_TraceAttributes splitBinaryCarrier)) of
                       Error e \<Rightarrow> Error e
                     | Panic q \<Rightarrow> Panic q
                     | Return header2 \<Rightarrow> Return (HTTPHeader (Some header2))))
           | _ \<Rightarrow> Panic InterfaceConversion))"

text \<open>\<^verbatim>\<open>goHTTPPropagator.JoinTrace\<close> (lines 262 to 291); line 267 asserts the type as line 253 does.\<close>

definition goHTTPPropagator_JoinTrace ::
  "collaborators \<Rightarrow> store \<Rightarrow> string \<Rightarrow> carrier \<Rightarrow> (spanImpl \<times> store) result" where
  "goHTTPPropagator_JoinTrace env h operationName c =
     (case c of
        HTTPHeader header \<Rightarrow>
          (case Header_index header (CanonicalHeaderKey tracerStateHeaderName) of
             None \<Rightarrow> Error TraceNotFound
           | Some tracerStateBase64 \<Rightarrow>
          if length tracerStateBase64 = 0 then Error TraceNotFound else
          (case Header_index header (CanonicalHeaderKey traceAttrsHeaderName) of
             None \<Rightarrow> Error TraceNotFound
           | Some traceAttrsBase64 \<Rightarrow>
          if length traceAttrsBase64 = 0 then Error TraceNotFound else
          (case DecodeString (tracerStateBase64 ! 0) of
             None \<Rightarrow> Error TraceCorrupted
           | Some tracerStateBinary \<Rightarrow>
          (case DecodeString (traceAttrsBase64 ! 0) of
             None \<Rightarrow> Error TraceCorrupted
           | Some traceAttrsBinary \<Rightarrow>
               splitBinaryPropagator_JoinTrace env h operationName
                 (BinaryCarrier (Some \<lparr>bin_TracerState = tracerStateBinary,
                                       bin_TraceAttributes = traceAttrsBinary\<rparr>))))))
      | _ \<Rightarrow> Panic InterfaceConversion)"

section \<open>Vocabulary of the properties\<close>

text \<open>Serialize, then deserialize what was serialized.\<close>

definition binary_roundtrip ::
  "collaborators \<Rightarrow> store \<Rightarrow> string \<Rightarrow> spanImpl \<Rightarrow> carrier \<Rightarrow> (spanImpl \<times> store) result" where
  "binary_roundtrip env h operationName sp c =
     (case splitBinaryPropagator_InjectSpan h sp c of
        Return c' \<Rightarrow> splitBinaryPropagator_JoinTrace env h operationName c'
      | Error e \<Rightarrow> Error e
      | Panic q \<Rightarrow> Panic q)"

definition http_roundtrip ::
  "collaborators \<Rightarrow> store \<Rightarrow> string \<Rightarrow> spanImpl \<Rightarrow> carrier \<Rightarrow> (spanImpl \<times> store) result" where
  "http_roundtrip env h operationName sp c =
     (case goHTTPPropagator_InjectSpan h sp c of
        Return c' \<Rightarrow> goHTTPPropagator_JoinTrace env h operationName c'
      | Error e \<Rightarrow> Error e
      | Panic q \<Rightarrow> Panic q)"

definition returned_context :: "(spanImpl \<times> store) result \<Rightarrow> StandardContext option" where
  "returned_context r = (case r of Return (sp, h) \<Rightarrow> Some (raw_StandardContext sp) | _ \<Rightarrow> None)"

text \<open>
  The counts and lengths of an attribute map that the signed 32-bit fields of the wire
  format can hold.
\<close>

definition fits_int32 :: "gomap \<Rightarrow> bool" where
  "fits_int32 attrs =
     (length attrs < 2 ^ 31
      \<and> list_all (\<lambda>kv. length (fst kv) < 2 ^ 31 \<and> length (snd kv) < 2 ^ 31) attrs)"

text \<open>
  A key of the state map is recognized when it is one of the three field names after
  \<^verbatim>\<open>strings.ToLower\<close>; the value of a recognized key is valid when it parses.
\<close>

definition recognized :: "(string \<Rightarrow> string) \<Rightarrow> string \<times> string \<Rightarrow> bool" where
  "recognized ul kv =
     (ToLower ul (fst kv) = fieldNameTraceID \<or> ToLower ul (fst kv) = fieldNameSpanID
      \<or> ToLower ul (fst kv) = fieldNameSampled)"

definition parses :: "(string \<Rightarrow> string) \<Rightarrow> string \<times> string \<Rightarrow> bool" where
  "parses ul kv =
     (if ToLower ul (fst kv) = fieldNameTraceID \<or> ToLower ul (fst kv) = fieldNameSpanID
      then ParseInt (snd kv) \<noteq> None
      else if ToLower ul (fst kv) = fieldNameSampled then ParseBool (snd kv) \<noteq> None
      else True)"

text \<open>
  How many of the three required fields a state map holds, under whatever spelling of
  the key; and the state maps in which no field stands under two keys.
\<close>

definition fields_found :: "(string \<Rightarrow> string) \<Rightarrow> gomap \<Rightarrow> nat" where
  "fields_found ul st =
     length (filter (\<lambda>f. f \<in> set (map (\<lambda>kv. ToLower ul (fst kv)) st))
               [fieldNameTraceID, fieldNameSpanID, fieldNameSampled])"

definition one_key_per_field :: "(string \<Rightarrow> string) \<Rightarrow> gomap \<Rightarrow> bool" where
  "one_key_per_field ul st = distinct (map (\<lambda>kv. ToLower ul (fst kv)) st)"

subsection \<open>Concrete inputs\<close>

text \<open>
  The context \<^verbatim>\<open>{TraceID: 42, SpanID: 7, Sampled: true, Attributes: {"user":"alice"}}\<close>,
  its attribute map at address 0 of the store.
\<close>

definition example_store :: store where
  "example_store = [[(''user'', ''alice'')]]"

definition example_span :: spanImpl where
  "example_span =
     \<lparr>raw_StandardContext =
        \<lparr>TraceID = 42, SpanID = 7, ParentSpanID = 0, Sampled = True, traceAttrs = MapRef 0\<rparr>,
      raw_Operation = ''send'', raw_Start = 0, raw_Tags = []\<rparr>"

definition collaborators_with :: "int64 \<Rightarrow> collaborators" where
  "collaborators_with rid =
     \<lparr>randomID = rid, time_Now = 1, unicode_ToLower = id, makemap_panics = False\<rparr>"

text \<open>A context whose only attribute has a key of \<open>2\<^sup>3\<^sup>1\<close> bytes and an empty value.\<close>

definition oversized_key :: string where
  "oversized_key = replicate (2 ^ 31) (CHR ''k'')"

definition oversized_store :: store where
  "oversized_store = [[(oversized_key, [])]]"

definition oversized_record :: SplitBinaryCarrier where
  "oversized_record =
     \<lparr>bin_TracerState = writeState (raw_StandardContext example_span),
      bin_TraceAttributes = writeAttrs [(oversized_key, [])]\<rparr>"

section \<open>Big-endian integers and the reader\<close>

lemma bit_byte_part:
  "bit (push_bit k (ucast (ucast (drop_bit k v :: 'a::len word) :: byte) :: 'a word)) n
     \<longleftrightarrow> k \<le> n \<and> n < k + 8 \<and> bit v n"
  by (auto simp add: bit_simps dest: bit_imp_le_length)

lemma bit_byte_low:
  "bit (ucast (ucast (v :: 'a::len word) :: byte) :: 'a word) n \<longleftrightarrow> n < 8 \<and> bit v n"
  by (auto simp add: bit_simps dest: bit_imp_le_length)

lemma Uint32_PutUint32: "Uint32 (PutUint32 v) = v"
proof (rule bit_word_eqI)
  fix n assume "n < LENGTH(32)"
  then have n: "n < 32" by simp
  have "bit (Uint32 (PutUint32 v)) n \<longleftrightarrow>
     (n < 8 \<and> bit v n) \<or> (8 \<le> n \<and> n < 8 + 8 \<and> bit v n) \<or> (16 \<le> n \<and> n < 16 + 8 \<and> bit v n)
      \<or> (24 \<le> n \<and> n < 24 + 8 \<and> bit v n)"
    by (simp add: Uint32_def PutUint32_def bit_or_iff bit_byte_part bit_byte_low)
  also have "\<dots> \<longleftrightarrow> bit v n"
    using n by auto
  finally show "bit (Uint32 (PutUint32 v)) n \<longleftrightarrow> bit v n" .
qed

lemma Uint64_PutUint64: "Uint64 (PutUint64 v) = v"
proof (rule bit_word_eqI)
  fix n assume "n < LENGTH(64)"
  then have n: "n < 64" by simp
  have "bit (Uint64 (PutUint64 v)) n \<longleftrightarrow>
     (n < 8 \<and> bit v n) \<or> (8 \<le> n \<and> n < 8 + 8 \<and> bit v n) \<or> (16 \<le> n \<and> n < 16 + 8 \<and> bit v n)
      \<or> (24 \<le> n \<and> n < 24 + 8 \<and> bit v n) \<or> (32 \<le> n \<and> n < 32 + 8 \<and> bit v n)
      \<or> (40 \<le> n \<and> n < 40 + 8 \<and> bit v n) \<or> (48 \<le> n \<and> n < 48 + 8 \<and> bit v n)
      \<or> (56 \<le> n \<and> n < 56 + 8 \<and> bit v n)"
    by (simp add: Uint64_def PutUint64_def bit_or_iff bit_byte_part bit_byte_low)
  also have "\<dots> \<longleftrightarrow> bit v n"
    using n by auto
  finally show "bit (Uint64 (PutUint64 v)) n \<longleftrightarrow> bit v n" .
qed

lemma length_PutUint32 [simp]: "length (PutUint32 v) = 4"
  by (simp add: PutUint32_def)

lemma length_PutUint64 [simp]: "length (PutUint64 v) = 8"
  by (simp add: PutUint64_def)

lemma readFull_append [simp]: "readFull (length xs) (xs @ r) = Some (xs, r)"
  by (simp add: readFull_def)

lemma readFull_short: "length r < n \<Longrightarrow> readFull n r = None"
  by (simp add: readFull_def)

lemma read_int32_PutUint32 [simp]: "read_int32 (PutUint32 v @ r) = Some (v, r)"
  using readFull_append [of "PutUint32 v" r]
  by (simp add: read_int32_def Uint32_PutUint32 del: readFull_append)

lemma read_int64_PutUint64 [simp]: "read_int64 (PutUint64 v @ r) = Some (v, r)"
  using readFull_append [of "PutUint64 v" r]
  by (simp add: read_int64_def Uint64_PutUint64 del: readFull_append)

lemma read_byte_Cons [simp]: "read_byte (b # r) = Some (b, r)"
  by (simp add: read_byte_def readFull_def)

lemma read_int32_short: "length r < 4 \<Longrightarrow> read_int32 r = None"
  by (simp add: read_int32_def readFull_def)

lemma char_of_byte_of_char [simp]: "char_of_byte (byte_of_char c) = c"
  by (simp add: byte_of_char_def char_of_byte_def unat_of_nat)

lemma string_of_bytes_of_string [simp]: "string_of_bytes (bytes_of_string s) = s"
  by (simp add: string_of_bytes_def bytes_of_string_def comp_def)

lemma length_bytes_of_string [simp]: "length (bytes_of_string s) = length s"
  by (simp add: bytes_of_string_def)

lemma sint_int32_len: "length xs < 2 ^ 31 \<Longrightarrow> sint (int32_len xs) = int (length xs)"
  unfolding int32_len_def
  by (simp add: signed_of_nat signed_take_bit_int_eq_self)

section \<open>The attribute buffer: what is written is read back, a truncation is detected\<close>

declare readAttrs.simps [simp del]

lemma length_writeLenBytes [simp]: "length (writeLenBytes bs) = 4 + length bs"
  by (simp add: writeLenBytes_def)

lemma length_writeState [simp]: "length (writeState sc) = 17"
  by (simp add: writeState_def)

lemma readLenBytes_take:
  assumes "length bs < 2 ^ 31"
  shows "readLenBytes (take m (writeLenBytes bs @ r)) =
           (if m < 4 + length bs then Error TraceCorrupted
            else Return (bs, take (m - (4 + length bs)) r))"
proof (cases "m < 4")
  case True
  then have "length (take m (writeLenBytes bs @ r)) < 4" by simp
  then show ?thesis using True
    by (simp add: readLenBytes_def read_int32_short del: length_take take_append)
next
  case False
  then have split: "take m (writeLenBytes bs @ r) =
      PutUint32 (int32_len bs) @ take (m - 4) (bs @ r)"
    by (simp add: writeLenBytes_def)
  show ?thesis
  proof (cases "m < 4 + length bs")
    case True
    then have "length (take (m - 4) (bs @ r)) < length bs" using False by simp
    then show ?thesis using True assms
      by (simp add: split readLenBytes_def sint_int32_len readFull_short del: take_append length_take)
  next
    case False
    then have "take (m - 4) (bs @ r) = bs @ take (m - (4 + length bs)) r"
      by simp
    then show ?thesis using False assms
      by (simp add: split readLenBytes_def sint_int32_len del: take_append)
  qed
qed

lemma readLenBytes_writeLenBytes:
  assumes "length bs < 2 ^ 31"
  shows "readLenBytes (writeLenBytes bs @ r) = Return (bs, r)"
  using readLenBytes_take [OF assms, of "4 + length bs + length r" r] by simp

lemma readAttrs_writeAttrs:
  assumes "list_all (\<lambda>kv. length (fst kv) < 2 ^ 31 \<and> length (snd kv) < 2 ^ 31) attrs"
    and "n = i + int (length attrs)"
  shows "readAttrs i n (concat (map writeAttr attrs) @ r) acc =
           Return (fold (\<lambda>kv. AList.update (fst kv) (snd kv)) attrs acc)"
  using assms
proof (induction attrs arbitrary: i acc)
  case Nil
  then show ?case by (subst readAttrs.simps) simp
next
  case (Cons kv attrs)
  then have k: "length (bytes_of_string (fst kv)) < 2 ^ 31"
    and v: "length (bytes_of_string (snd kv)) < 2 ^ 31"
    by simp_all
  have lt: "i < n" using Cons.prems by simp
  have n': "n = (i + 1) + int (length attrs)" using Cons.prems by simp
  have rest: "list_all (\<lambda>kv. length (fst kv) < 2 ^ 31 \<and> length (snd kv) < 2 ^ 31) attrs"
    using Cons.prems by simp
  have step: "readAttrs i n (concat (map writeAttr (kv # attrs)) @ r) acc =
      readAttrs (i + 1) n (concat (map writeAttr attrs) @ r) (AList.update (fst kv) (snd kv) acc)"
    using lt
    by (subst readAttrs.simps)
       (simp add: writeAttr_def Let_def readLenBytes_writeLenBytes [OF k]
          readLenBytes_writeLenBytes [OF v])
  show ?case
    unfolding step by (simp add: Cons.IH [OF rest n'])
qed

lemma update_fresh: "k \<notin> fst ` set al \<Longrightarrow> AList.update k v al = al @ [(k, v)]"
  by (induction al) auto

lemma fold_update_distinct:
  "distinct (map fst (acc @ attrs)) \<Longrightarrow>
     fold (\<lambda>kv. AList.update (fst kv) (snd kv)) attrs acc = acc @ attrs"
proof (induction attrs arbitrary: acc)
  case Nil
  then show ?case by simp
next
  case (Cons kv attrs)
  then have fresh: "fst kv \<notin> fst ` set acc" by auto
  have "distinct (map fst ((acc @ [kv]) @ attrs))" using Cons.prems by simp
  from Cons.IH [OF this] show ?case
    by (simp add: update_fresh [OF fresh])
qed

lemma copyAttrs_distinct: "distinct (map fst attrs) \<Longrightarrow> copyAttrs attrs = attrs"
  using fold_update_distinct [of "[]" attrs] by (simp add: copyAttrs_def)

lemma readAttrs_take:
  assumes "list_all (\<lambda>kv. length (fst kv) < 2 ^ 31 \<and> length (snd kv) < 2 ^ 31) attrs"
    and "i + int (length attrs) \<le> n"
    and "m < length (concat (map writeAttr attrs))"
  shows "readAttrs i n (take m (concat (map writeAttr attrs))) acc = Error TraceCorrupted"
  using assms
proof (induction attrs arbitrary: i acc m)
  case Nil
  then show ?case by simp
next
  case (Cons kv attrs)
  let ?k = "bytes_of_string (fst kv)" and ?v = "bytes_of_string (snd kv)"
  let ?rest = "concat (map writeAttr attrs)"
  have k: "length ?k < 2 ^ 31" and v: "length ?v < 2 ^ 31"
    using Cons.prems by simp_all
  have lt: "i < n" using Cons.prems by simp
  have rest: "list_all (\<lambda>kv. length (fst kv) < 2 ^ 31 \<and> length (snd kv) < 2 ^ 31) attrs"
    using Cons.prems by simp
  have n': "(i + 1) + int (length attrs) \<le> n" using Cons.prems by simp
  have whole: "concat (map writeAttr (kv # attrs)) = writeLenBytes ?k @ (writeLenBytes ?v @ ?rest)"
    by (simp add: writeAttr_def Let_def)
  show ?case
  proof (cases "m < 4 + length ?k")
    case True
    then show ?thesis using lt
      by (subst readAttrs.simps)
         (simp add: whole readLenBytes_take [OF k] del: take_append concat.simps list.map)
  next
    case False
    note key = this
    show ?thesis
    proof (cases "m - (4 + length ?k) < 4 + length ?v")
      case True
      then show ?thesis using lt key
        by (subst readAttrs.simps)
           (simp add: whole readLenBytes_take [OF k] readLenBytes_take [OF v]
              del: take_append concat.simps list.map)
    next
      case False
      let ?m' = "m - (4 + length ?k) - (4 + length ?v)"
      have "length (concat (map writeAttr (kv # attrs))) =
          (4 + length ?k) + (4 + length ?v) + length ?rest"
        by (simp add: writeAttr_def Let_def del: length_concat)
      then have "?m' < length ?rest"
        using Cons.prems(3) key False by linarith
      from Cons.IH [OF rest n' this] show ?thesis using lt key False
        by (subst readAttrs.simps)
           (simp add: whole readLenBytes_take [OF k] readLenBytes_take [OF v]
              del: take_append concat.simps list.map)
    qed
  qed
qed

section \<open>The split binary propagator\<close>

lemma binary_inject_return:
  "splitBinaryPropagator_InjectSpan h sp (BinaryCarrier (Some c)) =
     Return (BinaryCarrier (Some
       \<lparr>bin_TracerState = writeState (raw_StandardContext sp),
        bin_TraceAttributes = writeAttrs (deref h (traceAttrs (raw_StandardContext sp)))\<rparr>))"
  by (cases c) (simp add: splitBinaryPropagator_InjectSpan_def Let_def)

lemma binary_join_written:
  assumes "fits_int32 attrs"
    and "bin_TracerState c = writeState sc"
    and "bin_TraceAttributes c = writeAttrs attrs"
  shows "splitBinaryPropagator_JoinTrace env h operationName (BinaryCarrier (Some c)) =
     Return (startSpanInternal
       \<lparr>TraceID = TraceID sc, SpanID = randomID env, ParentSpanID = SpanID sc,
        Sampled = Sampled sc, traceAttrs = MapRef (length h)\<rparr>
       operationName (time_Now env) [], h @ [copyAttrs attrs])"
proof -
  have sizes: "list_all (\<lambda>kv. length (fst kv) < 2 ^ 31 \<and> length (snd kv) < 2 ^ 31) attrs"
    and count: "length attrs < 2 ^ 31"
    using assms(1) by (simp_all add: fits_int32_def)
  have loop: "readAttrs 0 (int (length attrs)) (concat (map writeAttr attrs)) [] =
      Return (copyAttrs attrs)"
    using readAttrs_writeAttrs [OF sizes, of "int (length attrs)" 0 "[]" "[]"]
    by (simp add: copyAttrs_def)
  show ?thesis
    by (simp add: splitBinaryPropagator_JoinTrace_def assms(2,3) writeState_def writeAttrs_def
        sint_int32_len [OF count] loop alloc_def)
qed

lemma binary_join_short_state:
  assumes "length (bin_TracerState c) < 17"
  shows "splitBinaryPropagator_JoinTrace env h operationName (BinaryCarrier (Some c)) =
     Error TraceCorrupted"
  using assms
  by (auto simp add: splitBinaryPropagator_JoinTrace_def read_int64_def read_byte_def readFull_def
      split: option.splits if_splits)

lemma binary_join_truncated_attrs:
  assumes "fits_int32 attrs"
    and "bin_TracerState c = writeState sc"
    and "bin_TraceAttributes c = take m (writeAttrs attrs)"
    and "m < length (writeAttrs attrs)"
  shows "splitBinaryPropagator_JoinTrace env h operationName (BinaryCarrier (Some c)) =
     Error TraceCorrupted"
proof -
  have sizes: "list_all (\<lambda>kv. length (fst kv) < 2 ^ 31 \<and> length (snd kv) < 2 ^ 31) attrs"
    and count: "length attrs < 2 ^ 31"
    using assms(1) by (simp_all add: fits_int32_def)
  have state: "read_int64 (writeState sc) = Some (TraceID sc, PutUint64 (SpanID sc) @ [if Sampled sc then 1 else 0])"
    by (simp add: writeState_def)
  show ?thesis
  proof (cases "m < 4")
    case True
    then have "read_int32 (take m (writeAttrs attrs)) = None"
      by (intro read_int32_short) simp
    then show ?thesis
      by (simp add: splitBinaryPropagator_JoinTrace_def assms(2,3) state)
  next
    case False
    then have split: "take m (writeAttrs attrs) =
        PutUint32 (int32_len attrs) @ take (m - 4) (concat (map writeAttr attrs))"
      by (simp add: writeAttrs_def)
    have "m - 4 < length (concat (map writeAttr attrs))"
      using assms(4) False by (simp add: writeAttrs_def del: length_concat)
    from readAttrs_take [OF sizes _ this, of 0 "int (length attrs)" "[]"]
    have "readAttrs 0 (int (length attrs)) (take (m - 4) (concat (map writeAttr attrs))) [] =
        Error TraceCorrupted"
      by simp
    then show ?thesis
      by (simp add: splitBinaryPropagator_JoinTrace_def assms(2,3) state split
          sint_int32_len [OF count])
  qed
qed

text \<open>
  C1, as amended. For every context whose attribute map has fewer than \<open>2\<^sup>3\<^sup>1\<close> entries,
  each key and value shorter than \<open>2\<^sup>3\<^sup>1\<close> bytes, deserializing what the binary codec
  serialized returns a context with the original's TraceID, Sampled flag and attribute
  map, with ParentSpanID equal to the original's SpanID, and with the SpanID that the
  identifier generator returned for this call (nothing compares it with the original's).
\<close>

theorem binary_roundtrip_identity:
  assumes "distinct (map fst (deref h (traceAttrs (raw_StandardContext sp))))"
    and "fits_int32 (deref h (traceAttrs (raw_StandardContext sp)))"
  shows "case binary_roundtrip env h operationName sp (BinaryCarrier (Some c)) of
           Return (sp', h') \<Rightarrow>
             TraceID (raw_StandardContext sp') = TraceID (raw_StandardContext sp)
           \<and> Sampled (raw_StandardContext sp') = Sampled (raw_StandardContext sp)
           \<and> map_of (deref h' (traceAttrs (raw_StandardContext sp')))
               = map_of (deref h (traceAttrs (raw_StandardContext sp)))
           \<and> ParentSpanID (raw_StandardContext sp') = SpanID (raw_StandardContext sp)
           \<and> SpanID (raw_StandardContext sp') = randomID env
         | Error e \<Rightarrow> False
         | Panic q \<Rightarrow> False"
proof -
  let ?attrs = "deref h (traceAttrs (raw_StandardContext sp))"
  have "binary_roundtrip env h operationName sp (BinaryCarrier (Some c)) =
      Return (startSpanInternal
        \<lparr>TraceID = TraceID (raw_StandardContext sp), SpanID = randomID env,
         ParentSpanID = SpanID (raw_StandardContext sp),
         Sampled = Sampled (raw_StandardContext sp), traceAttrs = MapRef (length h)\<rparr>
        operationName (time_Now env) [], h @ [?attrs])"
    unfolding binary_roundtrip_def binary_inject_return
    using binary_join_written [OF assms(2), of _ "raw_StandardContext sp" env h operationName]
    by (simp add: copyAttrs_distinct [OF assms(1)])
  then show ?thesis
    by (simp add: startSpanInternal_def deref_def)
qed

theorem binary_roundtrip_identity_witness:
  "distinct (map fst (deref example_store (traceAttrs (raw_StandardContext example_span))))
   \<and> fits_int32 (deref example_store (traceAttrs (raw_StandardContext example_span)))
   \<and> (case binary_roundtrip (collaborators_with 99) example_store ''recv'' example_span
              (BinaryCarrier (Some NewSplitBinaryCarrier)) of
         Return (sp', h') \<Rightarrow>
           TraceID (raw_StandardContext sp') = 42
         \<and> Sampled (raw_StandardContext sp') = True
         \<and> map_of (deref h' (traceAttrs (raw_StandardContext sp'))) = map_of [(''user'', ''alice'')]
         \<and> ParentSpanID (raw_StandardContext sp') = 7
         \<and> SpanID (raw_StandardContext sp') = 99
       | Error e \<Rightarrow> False
       | Panic q \<Rightarrow> False)"
proof -
  have d: "distinct (map fst (deref example_store (traceAttrs (raw_StandardContext example_span))))"
    by (simp add: example_store_def example_span_def deref_def)
  have f: "fits_int32 (deref example_store (traceAttrs (raw_StandardContext example_span)))"
    by (simp add: example_store_def example_span_def deref_def fits_int32_def)
  from binary_roundtrip_identity [OF d f, of "collaborators_with 99" "''recv''" NewSplitBinaryCarrier]
  show ?thesis
    using d f
    by (auto simp add: example_store_def example_span_def deref_def collaborators_with_def
        split: result.splits prod.splits)
qed

text \<open>
  C1 as stated fails twice. When the generator returns the identifier that the original
  span already has, the new SpanID equals the original's; and the context whose attribute
  key has \<open>2\<^sup>3\<^sup>1\<close> bytes is serialized with the length \<open>-2\<^sup>3\<^sup>1\<close>, on which deserialize
  panics in \<^verbatim>\<open>make\<close>.
\<close>

lemma length_oversized_key: "length oversized_key = 2 ^ 31"
  by (simp add: oversized_key_def)

lemma sint_oversized: "sint (int32_len (bytes_of_string oversized_key)) = - (2 ^ 31)"
  by (simp add: int32_len_def length_oversized_key)

lemma readLenBytes_negative:
  "sint len < 0 \<Longrightarrow> readLenBytes (PutUint32 len @ r) = Panic MakesliceLenOutOfRange"
  by (simp add: readLenBytes_def)

lemma binary_join_oversized:
  assumes "bin_TracerState c = writeState sc"
    and "bin_TraceAttributes c = PutUint32 1 @ PutUint32 (int32_len (bytes_of_string oversized_key)) @ r"
  shows "splitBinaryPropagator_JoinTrace env h operationName (BinaryCarrier (Some c)) =
     Panic MakesliceLenOutOfRange"
  by (simp add: splitBinaryPropagator_JoinTrace_def assms writeState_def readAttrs.simps
      readLenBytes_negative sint_oversized)

lemma writeAttrs_oversized:
  "writeAttrs [(oversized_key, [])] =
     PutUint32 1 @ PutUint32 (int32_len (bytes_of_string oversized_key))
       @ (bytes_of_string oversized_key @ PutUint32 0)"
  by (simp add: writeAttrs_def writeAttr_def writeLenBytes_def int32_len_def bytes_of_string_def)

theorem binary_roundtrip_not_fresh_or_panics:
  "map_option SpanID (returned_context
      (binary_roundtrip (collaborators_with 7) example_store ''recv'' example_span
         (BinaryCarrier (Some NewSplitBinaryCarrier))))
     = Some (SpanID (raw_StandardContext example_span))
   \<and> binary_roundtrip (collaborators_with 99) oversized_store ''recv'' example_span
         (BinaryCarrier (Some NewSplitBinaryCarrier))
     = Panic MakesliceLenOutOfRange"
proof
  have f: "fits_int32 [(''user'', ''alice'')]"
    by (simp add: fits_int32_def)
  show "map_option SpanID (returned_context
      (binary_roundtrip (collaborators_with 7) example_store ''recv'' example_span
         (BinaryCarrier (Some NewSplitBinaryCarrier))))
     = Some (SpanID (raw_StandardContext example_span))"
    unfolding binary_roundtrip_def binary_inject_return
    using binary_join_written [OF f, of _ "raw_StandardContext example_span"
        "collaborators_with 7" example_store "''recv''"]
    by (simp add: example_store_def example_span_def deref_def collaborators_with_def
        returned_context_def startSpanInternal_def)
  show "binary_roundtrip (collaborators_with 99) oversized_store ''recv'' example_span
         (BinaryCarrier (Some NewSplitBinaryCarrier))
     = Panic MakesliceLenOutOfRange"
    unfolding binary_roundtrip_def binary_inject_return
    by (simp add: binary_join_oversized [where r = "bytes_of_string oversized_key @ PutUint32 0"]
        oversized_store_def example_span_def deref_def writeAttrs_oversized)
qed

text \<open>
  C2: an attributes buffer that announces one entry whose key length is \<open>-1\<close>. The claim
  asks for the corrupted-trace error; \<^verbatim>\<open>make([]byte, keyLen)\<close> on line 203 panics.
\<close>

theorem binary_join_negative_length_panics:
  "splitBinaryPropagator_JoinTrace env h operationName
     (BinaryCarrier (Some \<lparr>bin_TracerState = [0,0,0,0,0,0,0,42, 0,0,0,0,0,0,0,7, 1],
                           bin_TraceAttributes = [0,0,0,1, 255,255,255,255]\<rparr>))
   = Panic MakesliceLenOutOfRange"
  by (simp add: splitBinaryPropagator_JoinTrace_def read_int64_def read_int32_def read_byte_def
      readFull_def Uint64_def Uint32_def readAttrs.simps readLenBytes_def)

text \<open>
  With a negative entry count, a runtime that panics on a negative size hint panics on
  line 196; on any other the loop of line 197 does not run, and the call returns a
  context with an empty attribute map.
\<close>

lemma binary_join_negative_count:
  "splitBinaryPropagator_JoinTrace env h operationName
     (BinaryCarrier (Some \<lparr>bin_TracerState = [0,0,0,0,0,0,0,42, 0,0,0,0,0,0,0,7, 1],
                           bin_TraceAttributes = [255,255,255,255]\<rparr>))
   = (if makemap_panics env then Panic MakemapSizeOutOfRange
      else Return (startSpanInternal
        \<lparr>TraceID = 42, SpanID = randomID env, ParentSpanID = 7, Sampled = True,
         traceAttrs = MapRef (length h)\<rparr> operationName (time_Now env) [], h @ [[]]))"
  by (simp add: splitBinaryPropagator_JoinTrace_def read_int64_def read_int32_def read_byte_def
      readFull_def Uint64_def Uint32_def readAttrs.simps readLenBytes_def alloc_def)

text \<open>
  C4, as amended. For every binary record produced by serializing a context: with the
  state buffer cut to fewer than 17 bytes, deserialize returns the corrupted-trace
  error; and when the attribute map has fewer than \<open>2\<^sup>3\<^sup>1\<close> entries, each key and
  value shorter than \<open>2\<^sup>3\<^sup>1\<close> bytes, so it does with the attributes buffer cut anywhere
  before its end.
\<close>

theorem binary_truncation_detected:
  assumes "splitBinaryPropagator_InjectSpan h sp (BinaryCarrier (Some c0)) =
           Return (BinaryCarrier (Some c))"
  shows "(n < 17 \<longrightarrow>
            splitBinaryPropagator_JoinTrace env h' operationName
              (BinaryCarrier (Some (c\<lparr>bin_TracerState := take n (bin_TracerState c)\<rparr>)))
            = Error TraceCorrupted)
       \<and> (fits_int32 (deref h (traceAttrs (raw_StandardContext sp)))
            \<and> m < length (bin_TraceAttributes c) \<longrightarrow>
            splitBinaryPropagator_JoinTrace env h' operationName
              (BinaryCarrier (Some (c\<lparr>bin_TraceAttributes := take m (bin_TraceAttributes c)\<rparr>)))
            = Error TraceCorrupted)"
proof -
  let ?sc = "raw_StandardContext sp"
  let ?attrs = "deref h (traceAttrs ?sc)"
  have c: "c = \<lparr>bin_TracerState = writeState ?sc, bin_TraceAttributes = writeAttrs ?attrs\<rparr>"
    using assms by (simp add: binary_inject_return)
  have state: "n < 17 \<Longrightarrow>
      splitBinaryPropagator_JoinTrace env h' operationName
        (BinaryCarrier (Some (c\<lparr>bin_TracerState := take n (bin_TracerState c)\<rparr>)))
      = Error TraceCorrupted"
    by (rule binary_join_short_state) (simp add: c)
  have attrs: "fits_int32 ?attrs \<Longrightarrow> m < length (bin_TraceAttributes c) \<Longrightarrow>
      splitBinaryPropagator_JoinTrace env h' operationName
        (BinaryCarrier (Some (c\<lparr>bin_TraceAttributes := take m (bin_TraceAttributes c)\<rparr>)))
      = Error TraceCorrupted"
    by (rule binary_join_truncated_attrs [where sc = ?sc and m = m and attrs = ?attrs])
       (simp_all add: c)
  from state attrs show ?thesis by blast
qed

theorem binary_truncation_detected_witness:
  "splitBinaryPropagator_InjectSpan example_store example_span
        (BinaryCarrier (Some NewSplitBinaryCarrier))
      = Return (BinaryCarrier (Some
          \<lparr>bin_TracerState = [0,0,0,0,0,0,0,42, 0,0,0,0,0,0,0,7, 1],
           bin_TraceAttributes = [0,0,0,1, 0,0,0,4, 117,115,101,114, 0,0,0,5, 97,108,105,99,101]\<rparr>))
   \<and> (16::nat) < 17
   \<and> splitBinaryPropagator_JoinTrace (collaborators_with 99) example_store ''recv''
        (BinaryCarrier (Some
          \<lparr>bin_TracerState = [0,0,0,0,0,0,0,42, 0,0,0,0,0,0,0,7],
           bin_TraceAttributes = [0,0,0,1, 0,0,0,4, 117,115,101,114, 0,0,0,5, 97,108,105,99,101]\<rparr>))
      = Error TraceCorrupted
   \<and> fits_int32 (deref example_store (traceAttrs (raw_StandardContext example_span)))
   \<and> (10::nat) < length [0,0,0,1, 0,0,0,4, 117,115,101,114, 0,0,0,5, 97,108,105,99,101 :: byte]
   \<and> splitBinaryPropagator_JoinTrace (collaborators_with 99) example_store ''recv''
        (BinaryCarrier (Some
          \<lparr>bin_TracerState = [0,0,0,0,0,0,0,42, 0,0,0,0,0,0,0,7, 1],
           bin_TraceAttributes = [0,0,0,1, 0,0,0,4, 117,115]\<rparr>))
      = Error TraceCorrupted"
proof -
  have f: "fits_int32 (deref example_store (traceAttrs (raw_StandardContext example_span)))"
    by (simp add: example_store_def example_span_def deref_def fits_int32_def)
  have i: "splitBinaryPropagator_InjectSpan example_store example_span
        (BinaryCarrier (Some NewSplitBinaryCarrier))
      = Return (BinaryCarrier (Some
          \<lparr>bin_TracerState = [0,0,0,0,0,0,0,42, 0,0,0,0,0,0,0,7, 1],
           bin_TraceAttributes = [0,0,0,1, 0,0,0,4, 117,115,101,114, 0,0,0,5, 97,108,105,99,101]\<rparr>))"
    by (simp add: binary_inject_return example_store_def example_span_def deref_def
        writeState_def writeAttrs_def writeAttr_def writeLenBytes_def int32_len_def
        bytes_of_string_def byte_of_char_def PutUint64_def PutUint32_def)
  from binary_truncation_detected [OF i, of 16 "collaborators_with 99" example_store "''recv''" 10]
  show ?thesis
    using f i by simp
qed

text \<open>
  C4 as stated fails on the record of the context with the key of \<open>2\<^sup>3\<^sup>1\<close> bytes: cut
  inside the key bytes, after 13 bytes, its attributes buffer makes deserialize panic.
\<close>

theorem binary_truncation_oversized_panics:
  "splitBinaryPropagator_InjectSpan oversized_store example_span
       (BinaryCarrier (Some NewSplitBinaryCarrier))
     = Return (BinaryCarrier (Some oversized_record))
   \<and> 13 < length (bin_TraceAttributes oversized_record)
   \<and> splitBinaryPropagator_JoinTrace (collaborators_with 99) oversized_store ''recv''
       (BinaryCarrier (Some (oversized_record
          \<lparr>bin_TraceAttributes := take 13 (bin_TraceAttributes oversized_record)\<rparr>)))
     = Panic MakesliceLenOutOfRange"
proof (intro conjI)
  show "splitBinaryPropagator_InjectSpan oversized_store example_span
       (BinaryCarrier (Some NewSplitBinaryCarrier))
     = Return (BinaryCarrier (Some oversized_record))"
    by (simp add: binary_inject_return oversized_record_def oversized_store_def example_span_def
        deref_def)
  show "13 < length (bin_TraceAttributes oversized_record)"
    by (simp add: oversized_record_def writeAttrs_oversized length_oversized_key)
  have "take 13 (bin_TraceAttributes oversized_record) =
      PutUint32 1 @ PutUint32 (int32_len (bytes_of_string oversized_key))
        @ take 5 (bytes_of_string oversized_key)"
    by (simp add: oversized_record_def writeAttrs_oversized length_oversized_key)
  then show "splitBinaryPropagator_JoinTrace (collaborators_with 99) oversized_store ''recv''
       (BinaryCarrier (Some (oversized_record
          \<lparr>bin_TraceAttributes := take 13 (bin_TraceAttributes oversized_record)\<rparr>)))
     = Panic MakesliceLenOutOfRange"
    by (intro binary_join_oversized [where sc = "raw_StandardContext example_span"])
       (simp_all add: oversized_record_def)
qed

section \<open>The split text propagator\<close>

lemma fieldNames_distinct [simp]:
  "fieldNameTraceID \<noteq> fieldNameSpanID" "fieldNameTraceID \<noteq> fieldNameSampled"
  "fieldNameSpanID \<noteq> fieldNameSampled" "fieldNameSpanID \<noteq> fieldNameTraceID"
  "fieldNameSampled \<noteq> fieldNameTraceID" "fieldNameSampled \<noteq> fieldNameSpanID"
  by (simp_all add: fieldNameTraceID_def fieldNameSpanID_def fieldNameSampled_def)

text \<open>
  When every key is recognized and every value parses, the loop visits every entry and
  counts each one.
\<close>

lemma rangeTracerState_counts:
  assumes "list_all (recognized ul) st" and "list_all (parses ul) st"
  shows "\<exists>l'. rangeTracerState ul st l = Return l'
           \<and> requiredFieldCount l' = requiredFieldCount l + int (length st)"
  using assms
proof (induction st arbitrary: l)
  case Nil
  then show ?case by simp
next
  case (Cons kv st)
  obtain k v where kv: "kv = (k, v)" by (cases kv)
  have rest: "list_all (recognized ul) st" "list_all (parses ul) st"
    using Cons.prems by simp_all
  have r: "recognized ul (k, v)" and p: "parses ul (k, v)"
    using Cons.prems by (simp_all add: kv)
  consider (t) "ToLower ul k = fieldNameTraceID"
    | (s) "ToLower ul k = fieldNameSpanID"
    | (b) "ToLower ul k = fieldNameSampled"
    using r by (auto simp add: recognized_def)
  then show ?case
  proof cases
    case t
    then obtain x where "ParseInt v = Some x" using p by (auto simp add: parses_def)
    with t Cons.IH [OF rest, of "l\<lparr>traceID := x, requiredFieldCount := requiredFieldCount l + 1\<rparr>"]
    show ?thesis by (auto simp add: kv)
  next
    case s
    then obtain x where "ParseInt v = Some x" using p by (auto simp add: parses_def)
    with s Cons.IH [OF rest, of "l\<lparr>propagatedSpanID := x, requiredFieldCount := requiredFieldCount l + 1\<rparr>"]
    show ?thesis by (auto simp add: kv)
  next
    case b
    then obtain x where "ParseBool v = Some x" using p by (auto simp add: parses_def)
    with b Cons.IH [OF rest, of "l\<lparr>sampled := x, requiredFieldCount := requiredFieldCount l + 1\<rparr>"]
    show ?thesis by (auto simp add: kv)
  qed
qed

text \<open>
  When some key is not recognized, the loop ends at the first entry, in the order of the
  iteration, that has an unrecognized key or a value that does not parse.
\<close>

lemma rangeTracerState_unknown:
  assumes "\<not> list_all (recognized ul) st"
  shows "rangeTracerState ul st l =
           (if list_all (parses ul) (takeWhile (recognized ul) st)
            then Error (Errorf (''Unknown TracerState field: ''
                                 @ fst (hd (dropWhile (recognized ul) st))))
            else Error TraceCorrupted)"
  using assms
proof (induction st arbitrary: l)
  case Nil
  then show ?case by simp
next
  case (Cons kv st)
  obtain k v where kv: "kv = (k, v)" by (cases kv)
  show ?case
  proof (cases "recognized ul (k, v)")
    case False
    then show ?thesis
      by (simp add: kv recognized_def)
  next
    case True
    then have rest: "\<not> list_all (recognized ul) st"
      using Cons.prems by (simp add: kv)
    consider (t) "ToLower ul k = fieldNameTraceID"
      | (s) "ToLower ul k = fieldNameSpanID"
      | (b) "ToLower ul k = fieldNameSampled"
      using True by (auto simp add: recognized_def)
    then show ?thesis
    proof cases
      case t
      then show ?thesis
        using True Cons.IH [OF rest]
        by (cases "ParseInt v") (simp_all add: kv parses_def)
    next
      case s
      then show ?thesis
        using True Cons.IH [OF rest]
        by (cases "ParseInt v") (simp_all add: kv parses_def)
    next
      case b
      then show ?thesis
        using True Cons.IH [OF rest]
        by (cases "ParseBool v") (simp_all add: kv parses_def)
    qed
  qed
qed

text \<open>
  In a state map whose keys are all recognized, with no field under two keys, the
  entries are as many as the fields found.
\<close>

lemma fields_found_length:
  assumes "list_all (recognized ul) st" and "one_key_per_field ul st"
  shows "fields_found ul st = length st"
proof -
  let ?keys = "map (\<lambda>kv. ToLower ul (fst kv)) st"
  let ?names = "[fieldNameTraceID, fieldNameSpanID, fieldNameSampled]"
  have sub: "set ?keys \<subseteq> set ?names"
    using assms(1) by (auto simp add: list_all_iff recognized_def)
  have "distinct ?names" by simp
  then have "length (filter (\<lambda>f. f \<in> set ?keys) ?names) = card ({f. f \<in> set ?keys} \<inter> set ?names)"
    by (rule distinct_length_filter)
  also have "{f. f \<in> set ?keys} \<inter> set ?names = set ?keys"
    using sub by auto
  also have "card (set ?keys) = length ?keys"
    using assms(2) by (simp only: one_key_per_field_def distinct_card)
  finally show ?thesis
    by (simp add: fields_found_def)
qed

text \<open>
  C7, as amended. For every state map whose keys are all recognized, no field standing
  under two keys, and whose values all parse: when fewer than the three required fields
  (traceid, spanid, sampled) are recognized, the text codec's deserialize returns the
  missing-field error naming how many were found; the map with only traceid and
  spanid, both valid, reports 2 of 3.
\<close>

theorem text_join_missing_fields:
  assumes "list_all (recognized (unicode_ToLower env)) st"
    and "list_all (parses (unicode_ToLower env)) st"
    and "one_key_per_field (unicode_ToLower env) st"
    and "fields_found (unicode_ToLower env) st < 3"
  shows "splitTextPropagator_JoinTrace env h operationName
           (TextCarrier (Some \<lparr>text_TracerState = st, text_TraceAttributes = r\<rparr>))
         = Error (Errorf (''Only found '' @ fmt_int (int (fields_found (unicode_ToLower env) st))
                          @ '' of 3 required fields''))"
proof -
  have found: "fields_found (unicode_ToLower env) st = length st"
    by (rule fields_found_length [OF assms(1,3)])
  from rangeTracerState_counts [OF assms(1,2), of locals0]
  obtain l' where "rangeTracerState (unicode_ToLower env) st locals0 = Return l'"
    and "requiredFieldCount l' = int (length st)"
    by (auto simp add: locals0_def)
  then show ?thesis
    using assms(4) by (simp add: splitTextPropagator_JoinTrace_def found)
qed

lemma ToLower_fieldNames:
  "ToLower ul ''traceid'' = ''traceid''" "ToLower ul ''spanid'' = ''spanid''"
  "ToLower ul ''sampled'' = ''sampled''" "ToLower ul ''TraceID'' = ''traceid''"
  "ToLower ul ''foo'' = ''foo''"
  by (simp_all add: ToLower_def ord_def lower_byte_def)

lemma ParseInt_examples:
  "ParseInt ''1'' = Some 1" "ParseInt ''2'' = Some 2" "ParseInt ''3'' = Some 3"
  "ParseInt ''7'' = Some 7" "ParseInt ''42'' = Some 42" "ParseInt ''x'' = None"
  by (simp_all add: ParseInt_def ParseUint_def is_digit_def ord_def)

lemma ParseBool_true: "ParseBool ''true'' = Some True"
  by (simp add: ParseBool_def)

lemma formatBits_2: "fmt_int 2 = ''2''"
  by (simp add: fmt_int_def formatBits.simps digit_char_def)

theorem text_join_missing_fields_witness:
  "list_all (recognized (unicode_ToLower (collaborators_with 99)))
       [(''traceid'', ''1''), (''spanid'', ''2'')]
   \<and> list_all (parses (unicode_ToLower (collaborators_with 99)))
       [(''traceid'', ''1''), (''spanid'', ''2'')]
   \<and> one_key_per_field (unicode_ToLower (collaborators_with 99))
       [(''traceid'', ''1''), (''spanid'', ''2'')]
   \<and> fields_found (unicode_ToLower (collaborators_with 99))
       [(''traceid'', ''1''), (''spanid'', ''2'')] = 2
   \<and> (2::nat) < 3
   \<and> splitTextPropagator_JoinTrace (collaborators_with 99) [] ''recv''
        (TextCarrier (Some \<lparr>text_TracerState = [(''traceid'', ''1''), (''spanid'', ''2'')],
                             text_TraceAttributes = NilMap\<rparr>))
      = Error (Errorf ''Only found 2 of 3 required fields'')"
proof -
  let ?st = "[(''traceid'', ''1''), (''spanid'', ''2'')]"
  have r: "list_all (recognized (unicode_ToLower (collaborators_with 99))) ?st"
    by (simp add: recognized_def ToLower_fieldNames fieldNameTraceID_def fieldNameSpanID_def)
  have p: "list_all (parses (unicode_ToLower (collaborators_with 99))) ?st"
    by (simp add: parses_def ToLower_fieldNames ParseInt_examples fieldNameTraceID_def
        fieldNameSpanID_def)
  have d: "one_key_per_field (unicode_ToLower (collaborators_with 99)) ?st"
    by (simp add: one_key_per_field_def ToLower_fieldNames)
  have f: "fields_found (unicode_ToLower (collaborators_with 99)) ?st = 2"
    by (simp add: fields_found_def ToLower_fieldNames fieldNameTraceID_def fieldNameSpanID_def
        fieldNameSampled_def)
  have n: "fields_found (unicode_ToLower (collaborators_with 99)) ?st < 3"
    by (simp add: f)
  from text_join_missing_fields [OF r p d n, of "[]" "''recv''" NilMap]
  show ?thesis
    using r p d f by (simp add: formatBits_2)
qed

text \<open>
  C7 as stated fails on a state map that has only traceid and spanid when the value of
  spanid does not parse: the result is the corrupted-trace error, in either order of
  the iteration, and not the missing-field error. It fails as well on a state map with
  traceid and an unknown key: one field is recognized, and the result is the
  unknown-field error.
\<close>

theorem text_join_two_fields_corrupted:
  "splitTextPropagator_JoinTrace (collaborators_with 99) [] ''recv''
     (TextCarrier (Some \<lparr>text_TracerState = [(''traceid'', ''1''), (''spanid'', ''x'')],
                          text_TraceAttributes = NilMap\<rparr>))
     = Error TraceCorrupted
   \<and> splitTextPropagator_JoinTrace (collaborators_with 99) [] ''recv''
     (TextCarrier (Some \<lparr>text_TracerState = [(''spanid'', ''x''), (''traceid'', ''1'')],
                          text_TraceAttributes = NilMap\<rparr>))
     = Error TraceCorrupted
   \<and> Error TraceCorrupted \<noteq>
       (Error (Errorf ''Only found 2 of 3 required fields'') :: (spanImpl \<times> store) result)
   \<and> splitTextPropagator_JoinTrace (collaborators_with 99) [] ''recv''
     (TextCarrier (Some \<lparr>text_TracerState = [(''traceid'', ''1''), (''foo'', ''2'')],
                          text_TraceAttributes = NilMap\<rparr>))
     = Error (Errorf ''Unknown TracerState field: foo'')
   \<and> Error (Errorf ''Unknown TracerState field: foo'') \<noteq>
       (Error (Errorf ''Only found 1 of 3 required fields'') :: (spanImpl \<times> store) result)"
  by (simp add: splitTextPropagator_JoinTrace_def locals0_def ToLower_fieldNames
      ParseInt_examples fieldNameTraceID_def fieldNameSpanID_def fieldNameSampled_def)

text \<open>
  Lines 74, 80 and 86 count entries, and line 91 tests that count. With a field under
  two keys the count is not the number of fields found: the state map with traceid and
  TraceID is reported as 2 of 3 where one field was found, and the one with traceid,
  TraceID and spanid passes the test of line 91 with the sampled field absent.
\<close>

lemma text_join_counts_entries:
  "fields_found ul [(''traceid'', ''1''), (''TraceID'', ''2'')] = 1
   \<and> splitTextPropagator_JoinTrace env h operationName
        (TextCarrier (Some \<lparr>text_TracerState = [(''traceid'', ''1''), (''TraceID'', ''2'')],
                             text_TraceAttributes = r\<rparr>))
      = Error (Errorf ''Only found 2 of 3 required fields'')
   \<and> fields_found ul [(''traceid'', ''1''), (''TraceID'', ''2''), (''spanid'', ''3'')] = 2
   \<and> returned_context (splitTextPropagator_JoinTrace env h operationName
        (TextCarrier (Some \<lparr>text_TracerState =
           [(''traceid'', ''1''), (''TraceID'', ''2''), (''spanid'', ''3'')],
           text_TraceAttributes = r\<rparr>)))
      = Some \<lparr>TraceID = 2, SpanID = randomID env, ParentSpanID = 3, Sampled = False,
               traceAttrs = r\<rparr>"
  by (simp add: splitTextPropagator_JoinTrace_def locals0_def ToLower_fieldNames
      ParseInt_examples fieldNameTraceID_def fieldNameSpanID_def fieldNameSampled_def
      fields_found_def formatBits_2 returned_context_def startSpanInternal_def)

text \<open>
  C8, as amended. For every state map that contains a key that is not, after lowering,
  one of traceid, spanid and sampled, the text codec's deserialize returns an error and
  no context: the unknown-field error for the first such key in the order of the
  iteration when the values of the recognized keys visited before it parse (so, whenever
  all recognized keys have valid values, also with all three required keys present), and
  the corrupted-trace error otherwise.
\<close>

theorem text_join_unknown_field:
  assumes "\<not> list_all (recognized (unicode_ToLower env)) st"
  shows "splitTextPropagator_JoinTrace env h operationName
           (TextCarrier (Some \<lparr>text_TracerState = st, text_TraceAttributes = r\<rparr>))
         = (if list_all (parses (unicode_ToLower env)) (takeWhile (recognized (unicode_ToLower env)) st)
            then Error (Errorf (''Unknown TracerState field: ''
                                 @ fst (hd (dropWhile (recognized (unicode_ToLower env)) st))))
            else Error TraceCorrupted)"
  by (simp add: splitTextPropagator_JoinTrace_def rangeTracerState_unknown [OF assms])

theorem text_join_unknown_field_witness:
  "\<not> list_all (recognized (unicode_ToLower (collaborators_with 99)))
       [(''traceid'', ''1''), (''spanid'', ''2''), (''sampled'', ''true''), (''foo'', ''3'')]
   \<and> splitTextPropagator_JoinTrace (collaborators_with 99) [] ''recv''
        (TextCarrier (Some \<lparr>text_TracerState =
           [(''traceid'', ''1''), (''spanid'', ''2''), (''sampled'', ''true''), (''foo'', ''3'')],
           text_TraceAttributes = NilMap\<rparr>))
      = Error (Errorf ''Unknown TracerState field: foo'')"
proof -
  have u: "\<not> list_all (recognized (unicode_ToLower (collaborators_with 99)))
       [(''traceid'', ''1''), (''spanid'', ''2''), (''sampled'', ''true''), (''foo'', ''3'')]"
    by (simp add: recognized_def ToLower_fieldNames fieldNameTraceID_def fieldNameSpanID_def
        fieldNameSampled_def)
  from text_join_unknown_field [OF u, of "[]" "''recv''" NilMap]
  show ?thesis
    using u
    by (simp add: recognized_def parses_def ToLower_fieldNames ParseInt_examples ParseBool_true
        fieldNameTraceID_def fieldNameSpanID_def fieldNameSampled_def)
qed

text \<open>
  C8 as stated fails on a state map in which the entry visited before the unknown key
  has a value that does not parse: the result is the corrupted-trace error.
\<close>

theorem text_join_unknown_after_corrupted:
  "splitTextPropagator_JoinTrace (collaborators_with 99) [] ''recv''
     (TextCarrier (Some \<lparr>text_TracerState = [(''traceid'', ''x''), (''foo'', ''1'')],
                          text_TraceAttributes = NilMap\<rparr>))
     = Error TraceCorrupted
   \<and> Error TraceCorrupted \<noteq>
       (Error (Errorf ''Unknown TracerState field: foo'') :: (spanImpl \<times> store) result)"
  by (simp add: splitTextPropagator_JoinTrace_def locals0_def ToLower_fieldNames
      ParseInt_examples fieldNameTraceID_def fieldNameSpanID_def fieldNameSampled_def)

text \<open>
  C10. The state map with the keys traceid, TraceID and spanid, and no key for sampled:
  each of the three entries is counted, the count reaches 3, and deserialize returns a
  context (with the sampled flag left at false) instead of the missing-field error.
\<close>

theorem text_join_counts_case_variants:
  "splitTextPropagator_JoinTrace env h operationName
     (TextCarrier (Some \<lparr>text_TracerState =
        [(''traceid'', ''1''), (''TraceID'', ''2''), (''spanid'', ''3'')],
        text_TraceAttributes = r\<rparr>))
   = Return (startSpanInternal
       \<lparr>TraceID = 2, SpanID = randomID env, ParentSpanID = 3, Sampled = False, traceAttrs = r\<rparr>
       operationName (time_Now env) [], h)"
  by (simp add: splitTextPropagator_JoinTrace_def locals0_def ToLower_fieldNames
      ParseInt_examples fieldNameTraceID_def fieldNameSpanID_def fieldNameSampled_def)

section \<open>Attribute maps across a propagation step\<close>

text \<open>
  Injection leaves every map of the store as it was: the text codec adds one map, its
  copy of the attributes, and the binary and HTTP codecs return no store at all.
\<close>

lemma text_inject_frame:
  assumes "splitTextPropagator_InjectSpan h sp c = Return (c', h')"
    and "allocated h r"
  shows "deref h' r = deref h r"
  using assms
  by (auto simp add: splitTextPropagator_InjectSpan_def alloc_def deref_def allocated_def
      nth_append Let_def split: carrier.splits option.splits mapref.splits)

lemma text_inject_copies:
  assumes "splitTextPropagator_InjectSpan h sp (TextCarrier (Some c)) =
      Return (TextCarrier (Some c'), h')"
  shows "\<not> allocated h (text_TraceAttributes c')
       \<and> deref h' (text_TraceAttributes c') = copyAttrs (deref h (traceAttrs (raw_StandardContext sp)))"
  using assms
  by (auto simp add: splitTextPropagator_InjectSpan_def alloc_def deref_def allocated_def Let_def)

text \<open>The binary codec's join returns a context whose map is new in the store.\<close>

lemma binary_join_fresh_map:
  assumes "splitBinaryPropagator_JoinTrace env h operationName c = Return (sp', h')"
  shows "\<not> allocated h (traceAttrs (raw_StandardContext sp'))
       \<and> allocated h' (traceAttrs (raw_StandardContext sp'))"
  using assms
  by (auto simp add: splitBinaryPropagator_JoinTrace_def alloc_def allocated_def
      startSpanInternal_def split: carrier.splits option.splits result.splits if_splits)

text \<open>The text codec's join returns the carrier's own map reference and allocates nothing.\<close>

lemma text_join_alias:
  assumes "splitTextPropagator_JoinTrace env h operationName (TextCarrier (Some c)) = Return (sp', h')"
  shows "traceAttrs (raw_StandardContext sp') = text_TraceAttributes c \<and> h' = h"
  using assms
  by (auto simp add: splitTextPropagator_JoinTrace_def startSpanInternal_def
      split: result.splits if_splits)

text \<open>
  C6: a text carrier whose attribute map is the map at address 0. The claim asks for a
  new map in the receiver's context; the context that the text codec's join returns
  holds address 0 itself, and the store has no new map.
\<close>

theorem text_join_shares_carrier_map:
  "splitTextPropagator_JoinTrace env h operationName
     (TextCarrier (Some \<lparr>text_TracerState =
        [(''traceid'', ''42''), (''spanid'', ''7''), (''sampled'', ''true'')],
        text_TraceAttributes = MapRef 0\<rparr>))
   = Return (startSpanInternal
       \<lparr>TraceID = 42, SpanID = randomID env, ParentSpanID = 7, Sampled = True,
        traceAttrs = MapRef 0\<rparr>
       operationName (time_Now env) [], h)"
  by (simp add: splitTextPropagator_JoinTrace_def locals0_def ToLower_fieldNames
      ParseInt_examples ParseBool_true fieldNameTraceID_def fieldNameSpanID_def
      fieldNameSampled_def)

section \<open>Carriers of the wrong type\<close>

lemma text_wrong_carrier:
  assumes "\<And>p. c \<noteq> TextCarrier p"
  shows "splitTextPropagator_InjectSpan h sp c = Error InvalidCarrier"
    and "splitTextPropagator_JoinTrace env h operationName c = Error InvalidCarrier"
  using assms
  by (cases c; simp add: splitTextPropagator_InjectSpan_def splitTextPropagator_JoinTrace_def)+

lemma binary_wrong_carrier:
  assumes "\<And>p. c \<noteq> BinaryCarrier p"
  shows "splitBinaryPropagator_InjectSpan h sp c = Error InvalidCarrier"
    and "splitBinaryPropagator_JoinTrace env h operationName c = Error InvalidCarrier"
  using assms
  by (cases c; simp add: splitBinaryPropagator_InjectSpan_def splitBinaryPropagator_JoinTrace_def)+

text \<open>
  C5: a carrier that is not an \<^verbatim>\<open>http.Header\<close>, handed to the HTTP wrapper. The claim
  asks for the invalid-carrier error; the type assertions of lines 253 and 267 panic.
\<close>

theorem http_wrong_carrier_panics:
  "goHTTPPropagator_JoinTrace env h operationName (TextCarrier p) = Panic InterfaceConversion
   \<and> goHTTPPropagator_JoinTrace env h operationName (BinaryCarrier q) = Panic InterfaceConversion
   \<and> goHTTPPropagator_JoinTrace env h operationName OtherCarrier = Panic InterfaceConversion
   \<and> goHTTPPropagator_InjectSpan h sp (TextCarrier p) = Panic InterfaceConversion
   \<and> goHTTPPropagator_InjectSpan h sp (BinaryCarrier q) = Panic InterfaceConversion
   \<and> goHTTPPropagator_InjectSpan h sp OtherCarrier = Panic InterfaceConversion"
  by (simp add: goHTTPPropagator_JoinTrace_def goHTTPPropagator_InjectSpan_def
      splitBinaryPropagator_InjectSpan_def Let_def)

section \<open>Base64: what is encoded is decoded back\<close>

lemma length_encodeStd: "length encodeStd = 64"
  by (simp add: encodeStd_def)

lemma distinct_encodeStd: "distinct encodeStd"
  by (simp add: encodeStd_def)

lemma encode6_in: "encode6 v \<in> set encodeStd"
  by (simp add: encode6_def length_encodeStd)

lemma decodeMap_encode6 [simp]: "decodeMap (encode6 v) = Some (v mod 64)"
proof -
  have "map_of (zip encodeStd [0..<64]) (encodeStd ! (v mod 64)) = Some ([0..<64] ! (v mod 64))"
    by (rule map_of_zip_nth) (simp_all add: length_encodeStd distinct_encodeStd)
  then show ?thesis
    by (simp add: decodeMap_def encode6_def)
qed

lemma encode6_not_special [simp]:
  "encode6 v \<noteq> CHR ''=''" "encode6 v \<noteq> CHR 0x0A" "encode6 v \<noteq> CHR 0x0D"
  using encode6_in [of v] by (auto simp add: encodeStd_def)

lemma split3:
  assumes "b < 256" "c < (256::nat)"
  shows "(a * 65536 + b * 256 + c) div 65536 = a"
    and "(a * 65536 + b * 256 + c) div 256 = a * 256 + b"
    and "(a * 65536 + b * 256 + c) mod 256 = c"
proof -
  have e: "a * 65536 + b * 256 + c = (a * 256 + b) * 256 + c" by simp
  show "(a * 65536 + b * 256 + c) div 256 = a * 256 + b"
    unfolding e using assms by simp
  have "((a * 256 + b) * 256 + c) mod 256 = c mod 256"
    by (rule mod_mult_self3)
  then show "(a * 65536 + b * 256 + c) mod 256 = c"
    unfolding e using assms by (simp only: mod_less)
  have "b * 256 + c < 65536" using assms by linarith
  then show "(a * 65536 + b * 256 + c) div 65536 = a"
    by simp
qed

lemma sextets:
  fixes v :: nat
  assumes v: "v < 16777216"
  shows "quantum (v div 262144 mod 64) (v div 4096 mod 64) (v div 64 mod 64) (v mod 64) = v"
proof -
  define q1 where "q1 = v div 64"
  define q2 where "q2 = q1 div 64"
  define q3 where "q3 = q2 div 64"
  have a: "v = q1 * 64 + v mod 64" unfolding q1_def by simp
  have b: "q1 = q2 * 64 + q1 mod 64" unfolding q2_def by simp
  have c: "q2 = q3 * 64 + q2 mod 64" unfolding q3_def by simp
  have d: "q3 < 64" using v unfolding q3_def q2_def q1_def by (simp add: div_mult2_eq [symmetric])
  have e: "q2 = v div 4096" "q3 = v div 262144"
    unfolding q3_def q2_def q1_def by (simp_all add: div_mult2_eq [symmetric])
  have q3m: "q3 mod 64 = q3" using d by simp
  have "quantum (q3 mod 64) (q2 mod 64) (q1 mod 64) (v mod 64) = v"
    unfolding quantum_def q3m using a b c by linarith
  then show ?thesis
    unfolding e q1_def .
qed

lemma pad2_mod: "((a::nat) * 65536 + b * 256) mod 64 = 0"
proof -
  have "a * 65536 + b * 256 = (a * 1024 + b * 4) * 64" by simp
  then show ?thesis by (simp only: mod_mult_self2_is_0)
qed

lemma pad1_mod: "((a::nat) * 65536) mod 64 = 0" "((a::nat) * 65536) div 64 mod 64 = 0"
proof -
  have e: "a * 65536 = (a * 1024) * 64" by simp
  show "(a * 65536) mod 64 = 0" by (simp only: e mod_mult_self2_is_0)
  have "(a * 1024) * 64 div 64 = a * 1024" by (rule nonzero_mult_div_cancel_right) simp
  moreover have "a * 1024 = (a * 16) * 64" by simp
  ultimately show "(a * 65536) div 64 mod 64 = 0" by (simp only: e mod_mult_self2_is_0)
qed

lemma unat_byte_less: "unat (a :: byte) < 256"
  using unsigned_less [of a, where 'a = nat] by simp

lemma byte_256 [simp]: "(256 :: byte) = 0" "(65536 :: byte) = 0"
proof -
  have "(word_of_nat 256 :: byte) = 0" "(word_of_nat 65536 :: byte) = 0"
    by (simp_all only: word_of_nat_eq_0_iff) simp_all
  then show "(256 :: byte) = 0" "(65536 :: byte) = 0" by simp_all
qed

lemma val24: "unat (a::byte) * 65536 + unat (b::byte) * 256 + unat (c::byte) < 16777216"
  using unat_byte_less [of a] unat_byte_less [of b] unat_byte_less [of c] by linarith

lemma decode_quantum3:
  fixes a b c :: byte
  defines "val \<equiv> unat a * 65536 + unat b * 256 + unat c"
  shows "quantum (val div 262144 mod 64) (val div 4096 mod 64) (val div 64 mod 64) (val mod 64) = val"
    and "(word_of_nat (val div 65536) :: byte) = a"
    and "(word_of_nat (val div 256) :: byte) = b"
    and "(word_of_nat val :: byte) = c"
proof -
  show "quantum (val div 262144 mod 64) (val div 4096 mod 64) (val div 64 mod 64) (val mod 64) = val"
    unfolding val_def by (rule sextets [OF val24])
  show "(word_of_nat (val div 65536) :: byte) = a"
    unfolding val_def by (simp add: split3 unat_byte_less)
  show "(word_of_nat (val div 256) :: byte) = b"
    unfolding val_def by (simp add: split3 unat_byte_less)
  show "(word_of_nat val :: byte) = c"
    unfolding val_def by simp
qed

lemma decodeQuanta_EncodeToString: "decodeQuanta (EncodeToString src) = Some src"
proof (induction src rule: EncodeToString.induct)
  case (1 a b c src)
  then show ?case
    by (simp add: Let_def decode_quantum3)
next
  case (2 a b)
  show ?case
    using decode_quantum3 [of a b 0] pad2_mod [of "unat a" "unat b"] by (simp add: Let_def)
next
  case (3 a)
  show ?case
    using decode_quantum3 [of a 0 0] pad1_mod [of "unat a"] by (simp add: Let_def)
next
  case 4
  then show ?case by simp
qed

lemma EncodeToString_no_newline:
  "filter (\<lambda>c. c \<noteq> CHR 0x0A \<and> c \<noteq> CHR 0x0D) (EncodeToString src) = EncodeToString src"
  by (induction src rule: EncodeToString.induct) (simp_all add: Let_def)

lemma DecodeString_EncodeToString: "DecodeString (EncodeToString src) = Some src"
  by (simp add: DecodeString_def EncodeToString_no_newline decodeQuanta_EncodeToString)

section \<open>The HTTP header propagator\<close>

lemma CanonicalHeaderKey_names [simp]:
  "CanonicalHeaderKey tracerStateHeaderName = tracerStateHeaderName"
  "CanonicalHeaderKey traceAttrsHeaderName = traceAttrsHeaderName"
  by (simp_all add: CanonicalHeaderKey_def tracerStateHeaderName_def traceAttrsHeaderName_def
      validHeaderFieldByte_def upper_byte_def lower_byte_def Let_def)

lemma headerNames_distinct [simp]:
  "tracerStateHeaderName \<noteq> traceAttrsHeaderName" "traceAttrsHeaderName \<noteq> tracerStateHeaderName"
  by (simp_all add: tracerStateHeaderName_def traceAttrsHeaderName_def)

lemma http_join_decoded:
  assumes "Header_index header tracerStateHeaderName = Some (s # srest)"
    and "Header_index header traceAttrsHeaderName = Some (a # arest)"
  shows "goHTTPPropagator_JoinTrace env h operationName (HTTPHeader header) =
     (case DecodeString s of
        None \<Rightarrow> Error TraceCorrupted
      | Some tracerStateBinary \<Rightarrow>
          (case DecodeString a of
             None \<Rightarrow> Error TraceCorrupted
           | Some traceAttrsBinary \<Rightarrow>
               splitBinaryPropagator_JoinTrace env h operationName
                 (BinaryCarrier (Some \<lparr>bin_TracerState = tracerStateBinary,
                                       bin_TraceAttributes = traceAttrsBinary\<rparr>))))"
  by (simp add: goHTTPPropagator_JoinTrace_def assms split: option.splits)

lemma http_inject_header:
  "goHTTPPropagator_InjectSpan h sp (HTTPHeader (Some hdr)) =
     Return (HTTPHeader (Some (hdr
       (tracerStateHeaderName \<mapsto>
          (case hdr tracerStateHeaderName of None \<Rightarrow> [] | Some vs \<Rightarrow> vs)
            @ [EncodeToString (writeState (raw_StandardContext sp))],
        traceAttrsHeaderName \<mapsto>
          (case hdr traceAttrsHeaderName of None \<Rightarrow> [] | Some vs \<Rightarrow> vs)
            @ [EncodeToString (writeAttrs (deref h (traceAttrs (raw_StandardContext sp))))]))))"
  by (simp add: goHTTPPropagator_InjectSpan_def binary_inject_return pointee_def Header_Add_def
      Let_def)

text \<open>
  C3. For every context, injecting through the HTTP wrapper into a header collection
  that has no value yet under the two header names, and joining from the result,
  gives what injecting and joining through the binary codec gives (the same span and
  store, or the same failure); and whenever the first values of the two headers decode,
  the wrapper's join is the binary codec's join on the decoded buffers, unchanged.
\<close>

theorem http_roundtrip_is_binary_roundtrip:
  "((hdr tracerStateHeaderName = None \<or> hdr tracerStateHeaderName = Some [])
     \<and> (hdr traceAttrsHeaderName = None \<or> hdr traceAttrsHeaderName = Some [])
    \<longrightarrow> http_roundtrip env h operationName sp (HTTPHeader (Some hdr))
        = binary_roundtrip env h operationName sp (BinaryCarrier (Some c)))
   \<and> (Header_index header tracerStateHeaderName = Some (s # srest)
       \<and> Header_index header traceAttrsHeaderName = Some (a # arest)
       \<and> DecodeString s = Some tracerStateBinary \<and> DecodeString a = Some traceAttrsBinary
    \<longrightarrow> goHTTPPropagator_JoinTrace env h operationName (HTTPHeader header)
        = splitBinaryPropagator_JoinTrace env h operationName
            (BinaryCarrier (Some \<lparr>bin_TracerState = tracerStateBinary,
                                  bin_TraceAttributes = traceAttrsBinary\<rparr>)))"
proof (intro conjI impI)
  assume fresh: "(hdr tracerStateHeaderName = None \<or> hdr tracerStateHeaderName = Some [])
     \<and> (hdr traceAttrsHeaderName = None \<or> hdr traceAttrsHeaderName = Some [])"
  let ?s = "EncodeToString (writeState (raw_StandardContext sp))"
  let ?a = "EncodeToString (writeAttrs (deref h (traceAttrs (raw_StandardContext sp))))"
  let ?hdr' = "hdr(tracerStateHeaderName \<mapsto>
          (case hdr tracerStateHeaderName of None \<Rightarrow> [] | Some vs \<Rightarrow> vs) @ [?s],
        traceAttrsHeaderName \<mapsto>
          (case hdr traceAttrsHeaderName of None \<Rightarrow> [] | Some vs \<Rightarrow> vs) @ [?a])"
  have s: "Header_index (Some ?hdr') tracerStateHeaderName = Some (?s # [])"
    using fresh by (auto simp add: Header_index_def)
  have a: "Header_index (Some ?hdr') traceAttrsHeaderName = Some (?a # [])"
    using fresh by (auto simp add: Header_index_def)
  show "http_roundtrip env h operationName sp (HTTPHeader (Some hdr))
        = binary_roundtrip env h operationName sp (BinaryCarrier (Some c))"
    unfolding http_roundtrip_def binary_roundtrip_def http_inject_header binary_inject_return
    by (simp add: http_join_decoded [OF s a] DecodeString_EncodeToString)
next
  assume "Header_index header tracerStateHeaderName = Some (s # srest)
       \<and> Header_index header traceAttrsHeaderName = Some (a # arest)
       \<and> DecodeString s = Some tracerStateBinary \<and> DecodeString a = Some traceAttrsBinary"
  then show "goHTTPPropagator_JoinTrace env h operationName (HTTPHeader header)
        = splitBinaryPropagator_JoinTrace env h operationName
            (BinaryCarrier (Some \<lparr>bin_TracerState = tracerStateBinary,
                                  bin_TraceAttributes = traceAttrsBinary\<rparr>))"
    by (simp add: http_join_decoded)
qed

lemma decodeMap_None: "c \<notin> set encodeStd \<Longrightarrow> decodeMap c = None"
  by (simp add: decodeMap_def map_of_zip_is_None length_encodeStd)

lemma EncodeToString_examples:
  "EncodeToString [0,0,0,0,0,0,0,42, 0,0,0,0,0,0,0,7, 1] = ''AAAAAAAAACoAAAAAAAAABwE=''"
  "EncodeToString [0,0,0,0] = ''AAAAAA==''"
  by (simp_all add: encode6_def encodeStd_def)

lemma DecodeString_examples:
  "DecodeString ''AAAAAAAAACoAAAAAAAAABwE='' = Some [0,0,0,0,0,0,0,42, 0,0,0,0,0,0,0,7, 1]"
  "DecodeString ''AAAAAA=='' = Some [0,0,0,0]"
  "DecodeString ''!!!!'' = None"
proof -
  show "DecodeString ''AAAAAAAAACoAAAAAAAAABwE='' = Some [0,0,0,0,0,0,0,42, 0,0,0,0,0,0,0,7, 1]"
    using DecodeString_EncodeToString [of "[0,0,0,0,0,0,0,42, 0,0,0,0,0,0,0,7, 1]"]
    by (simp only: EncodeToString_examples)
  show "DecodeString ''AAAAAA=='' = Some [0,0,0,0]"
    using DecodeString_EncodeToString [of "[0,0,0,0]"]
    by (simp only: EncodeToString_examples)
  have "CHR ''!'' \<notin> set encodeStd"
    by (simp add: encodeStd_def)
  then show "DecodeString ''!!!!'' = None"
    by (simp add: DecodeString_def decodeMap_None)
qed

lemma binary_join_example:
  "splitBinaryPropagator_JoinTrace (collaborators_with 99) example_store ''recv''
     (BinaryCarrier (Some \<lparr>bin_TracerState = [0,0,0,0,0,0,0,42, 0,0,0,0,0,0,0,7, 1],
                           bin_TraceAttributes = [0,0,0,0]\<rparr>))
   = Return (startSpanInternal
       \<lparr>TraceID = 42, SpanID = 99, ParentSpanID = 7, Sampled = True, traceAttrs = MapRef 1\<rparr>
       ''recv'' 1 [], [[(''user'', ''alice'')], []])"
  by (simp add: splitBinaryPropagator_JoinTrace_def read_int64_def read_int32_def read_byte_def
      readFull_def Uint64_def Uint32_def readAttrs.simps alloc_def collaborators_with_def
      example_store_def)

lemma binary_roundtrip_example:
  "binary_roundtrip (collaborators_with 99) example_store ''recv'' example_span
     (BinaryCarrier (Some NewSplitBinaryCarrier))
   = Return (startSpanInternal
       \<lparr>TraceID = 42, SpanID = 99, ParentSpanID = 7, Sampled = True, traceAttrs = MapRef 1\<rparr>
       ''recv'' 1 [], [[(''user'', ''alice'')], [(''user'', ''alice'')]])"
proof -
  have f: "fits_int32 [(''user'', ''alice'')]"
    by (simp add: fits_int32_def)
  show ?thesis
    unfolding binary_roundtrip_def binary_inject_return
    using binary_join_written [OF f, of _ "raw_StandardContext example_span"
        "collaborators_with 99" example_store "''recv''"]
    by (simp add: example_store_def example_span_def deref_def collaborators_with_def
        copyAttrs_def)
qed

theorem http_roundtrip_is_binary_roundtrip_witness:
  "(Map.empty tracerStateHeaderName = (None :: string list option)
      \<or> Map.empty tracerStateHeaderName = Some ([] :: string list))
   \<and> (Map.empty traceAttrsHeaderName = (None :: string list option)
      \<or> Map.empty traceAttrsHeaderName = Some ([] :: string list))
   \<and> http_roundtrip (collaborators_with 99) example_store ''recv'' example_span
        (HTTPHeader (Some Map.empty))
      = Return (startSpanInternal
          \<lparr>TraceID = 42, SpanID = 99, ParentSpanID = 7, Sampled = True, traceAttrs = MapRef 1\<rparr>
          ''recv'' 1 [], [[(''user'', ''alice'')], [(''user'', ''alice'')]])
   \<and> Header_index (Some [tracerStateHeaderName \<mapsto> [''AAAAAAAAACoAAAAAAAAABwE=''],
                           traceAttrsHeaderName \<mapsto> [''AAAAAA=='']]) tracerStateHeaderName
      = Some [''AAAAAAAAACoAAAAAAAAABwE='']
   \<and> Header_index (Some [tracerStateHeaderName \<mapsto> [''AAAAAAAAACoAAAAAAAAABwE=''],
                           traceAttrsHeaderName \<mapsto> [''AAAAAA=='']]) traceAttrsHeaderName
      = Some [''AAAAAA=='']
   \<and> DecodeString ''AAAAAAAAACoAAAAAAAAABwE='' = Some [0,0,0,0,0,0,0,42, 0,0,0,0,0,0,0,7, 1]
   \<and> DecodeString ''AAAAAA=='' = Some [0,0,0,0]
   \<and> goHTTPPropagator_JoinTrace (collaborators_with 99) example_store ''recv''
        (HTTPHeader (Some [tracerStateHeaderName \<mapsto> [''AAAAAAAAACoAAAAAAAAABwE=''],
                           traceAttrsHeaderName \<mapsto> [''AAAAAA=='']]))
      = Return (startSpanInternal
          \<lparr>TraceID = 42, SpanID = 99, ParentSpanID = 7, Sampled = True, traceAttrs = MapRef 1\<rparr>
          ''recv'' 1 [], [[(''user'', ''alice'')], []])"
proof -
  let ?header = "Some [tracerStateHeaderName \<mapsto> [''AAAAAAAAACoAAAAAAAAABwE=''],
                       traceAttrsHeaderName \<mapsto> [''AAAAAA=='']]"
  have s: "Header_index ?header tracerStateHeaderName = Some (''AAAAAAAAACoAAAAAAAAABwE='' # [])"
    and a: "Header_index ?header traceAttrsHeaderName = Some (''AAAAAA=='' # [])"
    by (simp_all add: Header_index_def)
  have round: "http_roundtrip (collaborators_with 99) example_store ''recv'' example_span
        (HTTPHeader (Some Map.empty))
      = binary_roundtrip (collaborators_with 99) example_store ''recv'' example_span
        (BinaryCarrier (Some NewSplitBinaryCarrier))"
    using http_roundtrip_is_binary_roundtrip
      [where hdr = Map.empty and env = "collaborators_with 99" and h = example_store
         and operationName = "''recv''" and sp = example_span and c = NewSplitBinaryCarrier]
    by simp
  have join: "goHTTPPropagator_JoinTrace (collaborators_with 99) example_store ''recv''
        (HTTPHeader ?header)
      = splitBinaryPropagator_JoinTrace (collaborators_with 99) example_store ''recv''
          (BinaryCarrier (Some \<lparr>bin_TracerState = [0,0,0,0,0,0,0,42, 0,0,0,0,0,0,0,7, 1],
                                bin_TraceAttributes = [0,0,0,0]\<rparr>))"
    using http_roundtrip_is_binary_roundtrip
      [where header = ?header and s = "''AAAAAAAAACoAAAAAAAAABwE=''" and srest = "[]"
         and a = "''AAAAAA==''" and arest = "[]"
         and tracerStateBinary = "[0,0,0,0,0,0,0,42, 0,0,0,0,0,0,0,7, 1]"
         and traceAttrsBinary = "[0,0,0,0]"
         and env = "collaborators_with 99" and h = example_store and operationName = "''recv''"]
      s a DecodeString_examples(1,2)
    by blast
  show ?thesis
    using s a by (simp add: round join binary_roundtrip_example binary_join_example
        DecodeString_examples)
qed

text \<open>
  C9. For every HTTP header carrier in which the Tracer-State or the Trace-Attributes
  header is absent or has an empty list of values, the wrapper's deserialize returns
  the trace-not-found error; when both are present, it decodes the first value of each
  and nothing else of the lists, returns the corrupted-trace error when one of the two
  does not decode, and otherwise hands the decoded buffers to the binary codec.
\<close>

theorem http_join_header_lookup:
  "(Header_index header tracerStateHeaderName = None
      \<or> Header_index header tracerStateHeaderName = Some []
      \<or> Header_index header traceAttrsHeaderName = None
      \<or> Header_index header traceAttrsHeaderName = Some []
    \<longrightarrow> goHTTPPropagator_JoinTrace env h operationName (HTTPHeader header) = Error TraceNotFound)
   \<and> (Header_index header tracerStateHeaderName = Some (s # srest)
       \<and> Header_index header traceAttrsHeaderName = Some (a # arest)
    \<longrightarrow> goHTTPPropagator_JoinTrace env h operationName (HTTPHeader header)
        = (case DecodeString s of
             None \<Rightarrow> Error TraceCorrupted
           | Some tracerStateBinary \<Rightarrow>
               (case DecodeString a of
                  None \<Rightarrow> Error TraceCorrupted
                | Some traceAttrsBinary \<Rightarrow>
                    splitBinaryPropagator_JoinTrace env h operationName
                      (BinaryCarrier (Some \<lparr>bin_TracerState = tracerStateBinary,
                                            bin_TraceAttributes = traceAttrsBinary\<rparr>)))))
   \<and> (Header_index header tracerStateHeaderName = Some (s # srest)
       \<and> Header_index header traceAttrsHeaderName = Some (a # arest)
       \<and> (DecodeString s = None \<or> DecodeString a = None)
    \<longrightarrow> goHTTPPropagator_JoinTrace env h operationName (HTTPHeader header) = Error TraceCorrupted)"
proof (intro conjI impI)
  assume "Header_index header tracerStateHeaderName = None
      \<or> Header_index header tracerStateHeaderName = Some []
      \<or> Header_index header traceAttrsHeaderName = None
      \<or> Header_index header traceAttrsHeaderName = Some []"
  then show "goHTTPPropagator_JoinTrace env h operationName (HTTPHeader header) = Error TraceNotFound"
    by (auto simp add: goHTTPPropagator_JoinTrace_def split: option.splits)
next
  assume "Header_index header tracerStateHeaderName = Some (s # srest)
       \<and> Header_index header traceAttrsHeaderName = Some (a # arest)"
  then show "goHTTPPropagator_JoinTrace env h operationName (HTTPHeader header)
        = (case DecodeString s of
             None \<Rightarrow> Error TraceCorrupted
           | Some tracerStateBinary \<Rightarrow>
               (case DecodeString a of
                  None \<Rightarrow> Error TraceCorrupted
                | Some traceAttrsBinary \<Rightarrow>
                    splitBinaryPropagator_JoinTrace env h operationName
                      (BinaryCarrier (Some \<lparr>bin_TracerState = tracerStateBinary,
                                            bin_TraceAttributes = traceAttrsBinary\<rparr>))))"
    by (simp add: http_join_decoded)
next
  assume "Header_index header tracerStateHeaderName = Some (s # srest)
       \<and> Header_index header traceAttrsHeaderName = Some (a # arest)
       \<and> (DecodeString s = None \<or> DecodeString a = None)"
  then show "goHTTPPropagator_JoinTrace env h operationName (HTTPHeader header) = Error TraceCorrupted"
    by (auto simp add: http_join_decoded split: option.splits)
qed

theorem http_join_header_lookup_witness:
  "Header_index (Some [tracerStateHeaderName \<mapsto> [''AAAAAAAAACoAAAAAAAAABwE='']])
       traceAttrsHeaderName = None
   \<and> goHTTPPropagator_JoinTrace (collaborators_with 99) example_store ''recv''
        (HTTPHeader (Some [tracerStateHeaderName \<mapsto> [''AAAAAAAAACoAAAAAAAAABwE='']]))
      = Error TraceNotFound
   \<and> Header_index (Some [tracerStateHeaderName \<mapsto> [''AAAAAAAAACoAAAAAAAAABwE='', ''!!!!''],
                           traceAttrsHeaderName \<mapsto> [''AAAAAA=='', ''!!!!'']]) tracerStateHeaderName
      = Some [''AAAAAAAAACoAAAAAAAAABwE='', ''!!!!'']
   \<and> Header_index (Some [tracerStateHeaderName \<mapsto> [''AAAAAAAAACoAAAAAAAAABwE='', ''!!!!''],
                           traceAttrsHeaderName \<mapsto> [''AAAAAA=='', ''!!!!'']]) traceAttrsHeaderName
      = Some [''AAAAAA=='', ''!!!!'']
   \<and> goHTTPPropagator_JoinTrace (collaborators_with 99) example_store ''recv''
        (HTTPHeader (Some [tracerStateHeaderName \<mapsto> [''AAAAAAAAACoAAAAAAAAABwE='', ''!!!!''],
                           traceAttrsHeaderName \<mapsto> [''AAAAAA=='', ''!!!!'']]))
      = Return (startSpanInternal
          \<lparr>TraceID = 42, SpanID = 99, ParentSpanID = 7, Sampled = True, traceAttrs = MapRef 1\<rparr>
          ''recv'' 1 [], [[(''user'', ''alice'')], []])
   \<and> Header_index (Some [tracerStateHeaderName \<mapsto> [''AAAAAAAAACoAAAAAAAAABwE=''],
                           traceAttrsHeaderName \<mapsto> [''!!!!'', ''AAAAAA=='']]) tracerStateHeaderName
      = Some [''AAAAAAAAACoAAAAAAAAABwE='']
   \<and> Header_index (Some [tracerStateHeaderName \<mapsto> [''AAAAAAAAACoAAAAAAAAABwE=''],
                           traceAttrsHeaderName \<mapsto> [''!!!!'', ''AAAAAA=='']]) traceAttrsHeaderName
      = Some [''!!!!'', ''AAAAAA=='']
   \<and> DecodeString ''!!!!'' = None
   \<and> goHTTPPropagator_JoinTrace (collaborators_with 99) example_store ''recv''
        (HTTPHeader (Some [tracerStateHeaderName \<mapsto> [''AAAAAAAAACoAAAAAAAAABwE=''],
                           traceAttrsHeaderName \<mapsto> [''!!!!'', ''AAAAAA=='']]))
      = Error TraceCorrupted"
proof -
  let ?absent = "Some [tracerStateHeaderName \<mapsto> [''AAAAAAAAACoAAAAAAAAABwE='']]"
  let ?both = "Some [tracerStateHeaderName \<mapsto> [''AAAAAAAAACoAAAAAAAAABwE='', ''!!!!''],
                     traceAttrsHeaderName \<mapsto> [''AAAAAA=='', ''!!!!'']]"
  let ?bad = "Some [tracerStateHeaderName \<mapsto> [''AAAAAAAAACoAAAAAAAAABwE=''],
                    traceAttrsHeaderName \<mapsto> [''!!!!'', ''AAAAAA=='']]"
  have absent: "Header_index ?absent traceAttrsHeaderName = None"
    by (simp add: Header_index_def)
  have both: "Header_index ?both tracerStateHeaderName = Some (''AAAAAAAAACoAAAAAAAAABwE='' # [''!!!!''])"
    "Header_index ?both traceAttrsHeaderName = Some (''AAAAAA=='' # [''!!!!''])"
    by (simp_all add: Header_index_def)
  have bad: "Header_index ?bad tracerStateHeaderName = Some (''AAAAAAAAACoAAAAAAAAABwE='' # [])"
    "Header_index ?bad traceAttrsHeaderName = Some (''!!!!'' # [''AAAAAA==''])"
    by (simp_all add: Header_index_def)
  have 1: "goHTTPPropagator_JoinTrace (collaborators_with 99) example_store ''recv''
      (HTTPHeader ?absent) = Error TraceNotFound"
    using http_join_header_lookup [where header = ?absent and env = "collaborators_with 99"
        and h = example_store and operationName = "''recv''"]
      absent by blast
  have 2: "goHTTPPropagator_JoinTrace (collaborators_with 99) example_store ''recv''
      (HTTPHeader ?both) =
      (case DecodeString ''AAAAAAAAACoAAAAAAAAABwE='' of
         None \<Rightarrow> Error TraceCorrupted
       | Some tracerStateBinary \<Rightarrow>
           (case DecodeString ''AAAAAA=='' of
              None \<Rightarrow> Error TraceCorrupted
            | Some traceAttrsBinary \<Rightarrow>
                splitBinaryPropagator_JoinTrace (collaborators_with 99) example_store ''recv''
                  (BinaryCarrier (Some \<lparr>bin_TracerState = tracerStateBinary,
                                        bin_TraceAttributes = traceAttrsBinary\<rparr>))))"
    using http_join_header_lookup [where header = ?both and env = "collaborators_with 99"
        and h = example_store and operationName = "''recv''"
        and s = "''AAAAAAAAACoAAAAAAAAABwE=''" and srest = "[''!!!!'']"
        and a = "''AAAAAA==''" and arest = "[''!!!!'']"]
      both by blast
  have 3: "goHTTPPropagator_JoinTrace (collaborators_with 99) example_store ''recv''
      (HTTPHeader ?bad) = Error TraceCorrupted"
    using http_join_header_lookup [where header = ?bad and env = "collaborators_with 99"
        and h = example_store and operationName = "''recv''"
        and s = "''AAAAAAAAACoAAAAAAAAABwE=''" and srest = "[]"
        and a = "''!!!!''" and arest = "[''AAAAAA=='']"]
      bad DecodeString_examples(3) by blast
  show ?thesis
    using absent both bad
    by (simp add: 1 2 3 DecodeString_examples binary_join_example)
qed

end
